theory Spec2Isabelle
  imports Complex_Main "HOL-Library.Sublist" "HOL-Library.Multiset"
begin

section \<open>Python values and library operations used by the engine\<close>

text \<open>
  The insight and notification functions of \<^verbatim>\<open>task-manager-backend.py\<close> read
  rows of the \<^verbatim>\<open>tasks\<close> table as dictionaries.  A column holds SQL NULL
  (Python \<^verbatim>\<open>None\<close>, here \<open>None\<close>) or a value; the TEXT and TIMESTAMP columns hold
  strings, the INTEGER and BOOLEAN columns hold integers.
\<close>

datatype error = ValueError | TypeError | IndexError

text \<open>
  A \<^verbatim>\<open>datetime.datetime\<close>: \<open>wall\<close> is the wall-clock reading in microseconds since
  0001-01-01T00:00:00; \<open>utcoffset\<close> is \<open>None\<close> for a naive value and the UTC offset in
  microseconds for an aware one.
\<close>

record datetime =
  wall :: int
  utcoffset :: "int option"

text \<open>\<^verbatim>\<open>a - b\<close> in microseconds; mixing a naive and an aware value raises TypeError.\<close>

definition dt_sub :: "datetime \<Rightarrow> datetime \<Rightarrow> error + int" where
  "dt_sub a b =
     (case utcoffset a of
        None \<Rightarrow> (case utcoffset b of None \<Rightarrow> Inr (wall a - wall b) | Some ob \<Rightarrow> Inl TypeError)
      | Some oa \<Rightarrow>
          (case utcoffset b of
             None \<Rightarrow> Inl TypeError
           | Some ob \<Rightarrow> Inr ((wall a - oa) - (wall b - ob))))"

text \<open>\<^verbatim>\<open>a <= b\<close> and \<^verbatim>\<open>a > b\<close>, with the same TypeError.\<close>

definition dt_le :: "datetime \<Rightarrow> datetime \<Rightarrow> error + bool" where
  "dt_le a b = (case dt_sub a b of Inl e \<Rightarrow> Inl e | Inr d \<Rightarrow> Inr (d \<le> 0))"

definition dt_gt :: "datetime \<Rightarrow> datetime \<Rightarrow> error + bool" where
  "dt_gt a b = (case dt_sub a b of Inl e \<Rightarrow> Inl e | Inr d \<Rightarrow> Inr (0 < d))"

text \<open>\<^verbatim>\<open>timedelta.days\<close>: a timedelta is normalised with \<open>0 \<le> seconds < 86400\<close>, so the
  days are the floor of the difference.\<close>

definition td_days :: "int \<Rightarrow> int" where
  "td_days us = us div 86400000000"

text \<open>\<^verbatim>\<open>datetime.hour\<close>.\<close>

definition dt_hour :: "datetime \<Rightarrow> nat" where
  "dt_hour d = nat ((wall d div 3600000000) mod 24)"

text \<open>\<^verbatim>\<open>now + datetime.timedelta(hours=h)\<close>.\<close>

definition plus_hours :: "datetime \<Rightarrow> int \<Rightarrow> datetime" where
  "plus_hours d h = d\<lparr>wall := wall d + h * 3600000000\<rparr>"

text \<open>
  The operations of the Python library that the engine calls and that are not code of the
  repository are parameters of the model:
  \<^item> \<open>fromisoformat\<close> is \<^verbatim>\<open>datetime.datetime.fromisoformat\<close> on a string, \<open>None\<close> when
    it raises ValueError;
  \<^item> \<open>strftime d fmt\<close> is \<^verbatim>\<open>d.strftime(fmt)\<close>;
  \<open>fl\<close>, \<open>round1\<close> and \<open>fstr\<close> are the float operations: a binary64 value is the
  rational it denotes, \<open>fl\<close> rounds an exact result to the nearest binary64
  (\<^verbatim>\<open>a / b\<close> is \<open>fl (a / b)\<close>, \<^verbatim>\<open>x * 100\<close> is \<open>fl (x * 100)\<close>), \<open>round1 x\<close> is
  \<^verbatim>\<open>round(x, 1)\<close> and \<open>fstr x\<close> is \<^verbatim>\<open>str(x)\<close> of a float.
\<close>

record pylib =
  fromisoformat :: "string \<Rightarrow> datetime option"
  strftime :: "datetime \<Rightarrow> string \<Rightarrow> string"
  fl :: "rat \<Rightarrow> rat"
  round1 :: "rat \<Rightarrow> rat"
  fstr :: "rat \<Rightarrow> string"

text \<open>Truthiness of a column value: \<^verbatim>\<open>None\<close>, \<^verbatim>\<open>''\<close> and \<^verbatim>\<open>0\<close> are false.\<close>

definition truthy_str :: "string option \<Rightarrow> bool" where
  "truthy_str v = (case v of None \<Rightarrow> False | Some s \<Rightarrow> s \<noteq> [])"

definition truthy_int :: "int option \<Rightarrow> bool" where
  "truthy_int v = (case v of None \<Rightarrow> False | Some n \<Rightarrow> n \<noteq> 0)"

text \<open>\<^verbatim>\<open>sep.join(xs)\<close>.\<close>

fun join :: "string \<Rightarrow> string list \<Rightarrow> string" where
  "join sep [] = []"
| "join sep [x] = x"
| "join sep (x # y # ys) = x @ sep @ join sep (y # ys)"

text \<open>\<^verbatim>\<open>str(n)\<close> of an integer, as an f-string renders it.\<close>

definition digit_char :: "nat \<Rightarrow> char" where
  "digit_char d = char_of (48 + d)"

fun str_nat :: "nat \<Rightarrow> string" where
  "str_nat n = (if n < 10 then [digit_char n] else str_nat (n div 10) @ [digit_char (n mod 10)])"

declare str_nat.simps [simp del]

definition str_int :: "int \<Rightarrow> string" where
  "str_int i = (if i < 0 then CHR ''-'' # str_nat (nat (- i)) else str_nat (nat i))"

section \<open>Rows\<close>

text \<open>A row of \<^verbatim>\<open>tasks\<close>, with the columns the engine reads (\<open>task_id\<close> is column
  \<^verbatim>\<open>id\<close>).\<close>

record task =
  task_id :: string
  title :: string
  category :: "string option"
  priority :: "int option"
  due_date :: "string option"
  completed_at :: "string option"

text \<open>A row of \<^verbatim>\<open>notification_settings\<close>.\<close>

record notification_settings =
  enable_push :: "int option"
  focus_hours :: "string option"
  notification_frequency :: "string option"

text \<open>The dictionary \<^verbatim>\<open>analyze_productive_time\<close> returns, which is also the decoded
  \<^verbatim>\<open>insight_data\<close> of a stored \<^verbatim>\<open>productive_time\<close> insight.\<close>

record productive_time =
  productive_hours :: "string list"
  pt_message :: string
  hour_data :: "(nat \<times> nat) list"

text \<open>An entry of the notification plan.\<close>

record notification =
  n_type :: string
  n_title :: string
  n_message :: string
  n_scheduled_time :: string
  n_priority :: string

section \<open>The notification planner: \<^verbatim>\<open>schedule_smart_notifications\<close>\<close>

text \<open>The filter of the \<^verbatim>\<open>due_today\<close> comprehension; \<open>today\<close> is
  \<^verbatim>\<open>now.strftime('%Y-%m-%d')\<close>.\<close>

definition is_due_today :: "string \<Rightarrow> task \<Rightarrow> bool" where
  "is_due_today today t =
     (case due_date t of None \<Rightarrow> False | Some s \<Rightarrow> s \<noteq> [] \<and> prefix today s)"

text \<open>
  The filter of the \<^verbatim>\<open>high_priority\<close> comprehension.  The conjunction is evaluated left
  to right and stops at the first false conjunct; \<^verbatim>\<open>fromisoformat\<close> is called with no
  handler around it, so its ValueError, and the TypeError of a comparison with an aware
  due date, leave the comprehension.
\<close>

definition is_high_priority :: "pylib \<Rightarrow> datetime \<Rightarrow> task \<Rightarrow> error + bool" where
  "is_high_priority lib now t =
     (if priority t = Some 1 \<or> priority t = Some 2 then
        (case due_date t of
           None \<Rightarrow> Inr False
         | Some s \<Rightarrow>
             if s = [] then Inr False
             else
               (case fromisoformat lib s of
                  None \<Rightarrow> Inl ValueError
                | Some due \<Rightarrow>
                    (case dt_gt due now of
                       Inl e \<Rightarrow> Inl e
                     | Inr later \<Rightarrow>
                         if later then
                           (case dt_sub due now of
                              Inl e \<Rightarrow> Inl e
                            | Inr d \<Rightarrow> Inr (td_days d \<le> 3))
                         else Inr False)))
      else Inr False)"

text \<open>A list comprehension whose condition may raise: the first exception ends it.\<close>

fun filter_err :: "('a \<Rightarrow> error + bool) \<Rightarrow> 'a list \<Rightarrow> error + 'a list" where
  "filter_err p [] = Inr []"
| "filter_err p (x # xs) =
     (case p x of
        Inl e \<Rightarrow> Inl e
      | Inr b \<Rightarrow>
          (case filter_err p xs of
             Inl e \<Rightarrow> Inl e
           | Inr ys \<Rightarrow> Inr (if b then x # ys else ys)))"

definition due_today_notification :: "pylib \<Rightarrow> datetime \<Rightarrow> task list \<Rightarrow> notification list" where
  "due_today_notification lib now due_today =
     (if due_today = [] then []
      else
        [\<lparr>n_type = ''due_today'',
          n_title = ''You have '' @ str_nat (length due_today) @ '' tasks due today'',
          n_message = ''Tasks due today: '' @
            join '', '' (map title (take 3 due_today) @
              (if 3 < length due_today
               then [''and '' @ str_nat (length due_today - 3) @ '' more''] else [])),
          n_scheduled_time = strftime lib now ''%Y-%m-%d %H:%M:%S'',
          n_priority = ''high''\<rparr>])"

definition high_priority_notification :: "pylib \<Rightarrow> datetime \<Rightarrow> task list \<Rightarrow> notification list" where
  "high_priority_notification lib now high_priority =
     (if high_priority = [] then []
      else
        [\<lparr>n_type = ''high_priority'',
          n_title = ''High priority tasks coming up'',
          n_message = ''Remember to work on: '' @ join '', '' (map title (take 2 high_priority)),
          n_scheduled_time = strftime lib (plus_hours now 2) ''%Y-%m-%d %H:%M:%S'',
          n_priority = ''medium''\<rparr>])"

definition productive_time_notification ::
  "productive_time option \<Rightarrow> task list \<Rightarrow> notification list" where
  "productive_time_notification productive_time_insight pending_tasks =
     (case productive_time_insight of
        None \<Rightarrow> []
      | Some insight_data \<Rightarrow>
          (case pending_tasks of
             [] \<Rightarrow> []
           | first # rest \<Rightarrow>
               if productive_hours insight_data = [] then []
               else
                 [\<lparr>n_type = ''productive_time'',
                   n_title = ''It's your productive time!'',
                   n_message = ''This is usually when you get the most done. Time to tackle ''
                     @ [CHR 0x27] @ title first @ [CHR 0x27] @ ''?'',
                   n_scheduled_time = ''Next occurrence of productive time'',
                   n_priority = ''low''\<rparr>]))"

text \<open>
  \<^verbatim>\<open>schedule_smart_notifications\<close>.  The three reads of the database are parameters:
  \<open>settings\<close> is the settings row (\<open>None\<close> when the user has none), \<open>pending_tasks\<close> the
  pending rows, \<open>productive_time_insight\<close> the latest stored productive-time insight;
  \<open>now\<close> is the one reading of the clock.  The result is \<open>Inl e\<close> when the exception
  \<open>e\<close> leaves the function, \<open>Inr None\<close> for the bare \<^verbatim>\<open>return\<close> (Python's
  \<^verbatim>\<open>None\<close>) and \<open>Inr (Some ns)\<close> for \<^verbatim>\<open>return notifications\<close>.
\<close>

definition schedule_smart_notifications ::
  "pylib \<Rightarrow> datetime \<Rightarrow> notification_settings option \<Rightarrow> task list \<Rightarrow> productive_time option
     \<Rightarrow> error + notification list option" where
  "schedule_smart_notifications lib now settings pending_tasks productive_time_insight =
     (case settings of
        None \<Rightarrow> Inr None
      | Some s \<Rightarrow>
          if \<not> truthy_int (enable_push s) then Inr None
          else if pending_tasks = [] then Inr None
          else
            (let due_today = filter (is_due_today (strftime lib now ''%Y-%m-%d'')) pending_tasks
             in case filter_err (is_high_priority lib now) pending_tasks of
                  Inl e \<Rightarrow> Inl e
                | Inr high_priority \<Rightarrow>
                    Inr (Some (due_today_notification lib now due_today
                               @ high_priority_notification lib now high_priority
                               @ productive_time_notification productive_time_insight pending_tasks))))"

section \<open>The task-order recommender: \<^verbatim>\<open>recommend_task_order\<close>\<close>

text \<open>An entry of \<^verbatim>\<open>task_scores\<close> (keys \<^verbatim>\<open>id\<close>, \<^verbatim>\<open>title\<close>, \<^verbatim>\<open>score\<close>,
  \<^verbatim>\<open>priority\<close>, \<^verbatim>\<open>due_date\<close>, \<^verbatim>\<open>category\<close>) and the returned dictionary.\<close>

record recommendation =
  rec_id :: string
  rec_title :: string
  score :: int
  rec_priority :: int
  rec_due_date :: "string option"
  rec_category :: string

record task_recommendations =
  recommended_tasks :: "recommendation list"
  tr_message :: string
  reasoning :: string

text \<open>\<^verbatim>\<open>task['priority'] or 3\<close>: \<^verbatim>\<open>or\<close> takes its right operand when the left one is
  falsy, which \<^verbatim>\<open>None\<close> and \<^verbatim>\<open>0\<close> are.\<close>

definition priority_or_default :: "task \<Rightarrow> int" where
  "priority_or_default t =
     (case priority t of None \<Rightarrow> 3 | Some p \<Rightarrow> if p = 0 then 3 else p)"

text \<open>\<^verbatim>\<open>task['category'] or 'Uncategorized'\<close>.\<close>

definition category_or_default :: "task \<Rightarrow> string" where
  "category_or_default t =
     (case category t of
        None \<Rightarrow> ''Uncategorized''
      | Some c \<Rightarrow> if c = [] then ''Uncategorized'' else c)"

text \<open>The due-date factor; \<open>now\<close> is the reading of the clock taken for this task.  Both
  ValueError and TypeError are caught and leave the factor at 0.\<close>

definition due_date_score :: "pylib \<Rightarrow> datetime \<Rightarrow> task \<Rightarrow> int" where
  "due_date_score lib now t =
     (case due_date t of
        None \<Rightarrow> 0
      | Some s \<Rightarrow>
          if s = [] then 0
          else
            (case fromisoformat lib s of
               None \<Rightarrow> 0
             | Some due \<Rightarrow>
                 (case dt_sub due now of
                    Inl e \<Rightarrow> 0
                  | Inr d \<Rightarrow>
                      (let days_until_due = td_days d
                       in if days_until_due < 0 then 40
                          else if days_until_due = 0 then 30
                          else if days_until_due = 1 then 20
                          else if days_until_due < 7 then 10
                          else 0))))"

definition base_score :: "task \<Rightarrow> int" where
  "base_score t = (6 - priority_or_default t) * 10"

definition score_entry :: "pylib \<Rightarrow> datetime \<Rightarrow> task \<Rightarrow> recommendation" where
  "score_entry lib now t =
     \<lparr>rec_id = task_id t,
      rec_title = title t,
      score = base_score t + due_date_score lib now t,
      rec_priority = priority_or_default t,
      rec_due_date = due_date t,
      rec_category = category_or_default t\<rparr>"

text \<open>The loop over \<^verbatim>\<open>pending_tasks\<close>.  The clock is read inside the loop: \<open>clock i\<close> is
  the reading taken while the task at position \<open>i\<close> is scored.\<close>

definition task_scores :: "pylib \<Rightarrow> (nat \<Rightarrow> datetime) \<Rightarrow> task list \<Rightarrow> recommendation list" where
  "task_scores lib clock pending_tasks =
     map (\<lambda>(i, t). score_entry lib (clock i) t) (enumerate 0 pending_tasks)"

text \<open>\<^verbatim>\<open>xs.sort(key=key, reverse=True)\<close> and \<^verbatim>\<open>sorted(xs, key=key, reverse=True)\<close>:
  descending by key, and stable (elements with equal keys keep their order, also with
  \<^verbatim>\<open>reverse=True\<close>).\<close>

definition sort_desc :: "('a \<Rightarrow> int) \<Rightarrow> 'a list \<Rightarrow> 'a list" where
  "sort_desc key xs = sort_key (\<lambda>x. - key x) xs"

definition recommend_task_order ::
  "pylib \<Rightarrow> (nat \<Rightarrow> datetime) \<Rightarrow> task list \<Rightarrow> task list \<Rightarrow> task_recommendations option" where
  "recommend_task_order lib clock pending_tasks completed_tasks =
     (if pending_tasks = [] then None
      else
        Some \<lparr>recommended_tasks = take 5 (sort_desc score (task_scores lib clock pending_tasks)),
              tr_message = ''Here's your suggested task order for maximum productivity'',
              reasoning = ''Based on urgency, priority, and your past completion patterns''\<rparr>)"

section \<open>The productive-time analyzer: \<^verbatim>\<open>analyze_productive_time\<close>\<close>

text \<open>A row of \<^verbatim>\<open>user_activity\<close>; the analyzer accepts the rows and does not read them.\<close>

record activity =
  action_type :: string
  timestamp :: "string option"

text \<open>The hour a task contributes to \<^verbatim>\<open>completion_hours\<close>, if any.\<close>

definition completion_hour :: "pylib \<Rightarrow> task \<Rightarrow> nat option" where
  "completion_hour lib t =
     (case completed_at t of
        None \<Rightarrow> None
      | Some s \<Rightarrow>
          if s = [] then None
          else (case fromisoformat lib s of None \<Rightarrow> None | Some completion_time \<Rightarrow> Some (dt_hour completion_time)))"

definition completion_hours :: "pylib \<Rightarrow> task list \<Rightarrow> nat list" where
  "completion_hours lib completed_tasks = List.map_filter (completion_hour lib) completed_tasks"

definition hour_counts :: "nat list \<Rightarrow> (nat \<times> nat) list" where
  "hour_counts hours = map (\<lambda>hour. (hour, count_list hours hour)) [0..<24]"

definition top_hours :: "nat list \<Rightarrow> (nat \<times> nat) list" where
  "top_hours hours = take 3 (sort_desc (\<lambda>x. int (snd x)) (hour_counts hours))"

definition format_hour :: "nat \<Rightarrow> string" where
  "format_hour hour =
     (let ampm = (if hour < 12 then ''AM'' else ''PM'');
          formatted_hour = (if hour < 12 then hour else hour - 12);
          formatted_hour = (if formatted_hour = 0 then 12 else formatted_hour)
      in str_nat formatted_hour @ '' '' @ ampm)"

definition formatted_hours :: "nat list \<Rightarrow> string list" where
  "formatted_hours hours =
     map (\<lambda>x. format_hour (fst x)) (filter (\<lambda>x. 0 < snd x) (top_hours hours))"

definition analyze_productive_time ::
  "pylib \<Rightarrow> task list \<Rightarrow> activity list \<Rightarrow> productive_time option" where
  "analyze_productive_time lib completed_tasks activity_logs =
     (if completed_tasks = [] then None
      else if completion_hours lib completed_tasks = [] then None
      else
        (let hours = completion_hours lib completed_tasks
         in Some \<lparr>productive_hours = formatted_hours hours,
                  pt_message = ''You're most productive around '' @ join '', '' (formatted_hours hours),
                  hour_data = hour_counts hours\<rparr>))"

section \<open>The completion-rate analyzer: \<^verbatim>\<open>analyze_completion_rate\<close>\<close>

text \<open>A Python number that is an \<^verbatim>\<open>int\<close> or a \<^verbatim>\<open>float\<close>: the on-time percentage is
  the integer \<^verbatim>\<open>0\<close> when there is nothing to divide by.\<close>

datatype pynum = PyInt int | PyFloat rat

fun num_val :: "pynum \<Rightarrow> rat" where
  "num_val (PyInt i) = of_int i"
| "num_val (PyFloat x) = x"

text \<open>\<^verbatim>\<open>round(x, 1)\<close>: an \<^verbatim>\<open>int\<close> stays the same \<^verbatim>\<open>int\<close>.\<close>

fun py_round1 :: "pylib \<Rightarrow> pynum \<Rightarrow> pynum" where
  "py_round1 lib (PyInt i) = PyInt i"
| "py_round1 lib (PyFloat x) = PyFloat (round1 lib x)"

fun str_num :: "pylib \<Rightarrow> pynum \<Rightarrow> string" where
  "str_num lib (PyInt i) = str_int i"
| "str_num lib (PyFloat x) = fstr lib x"

text \<open>\<^verbatim>\<open>a / b * 100\<close> on integers \<open>a\<close> and \<open>b \<noteq> 0\<close>.\<close>

definition percent :: "pylib \<Rightarrow> nat \<Rightarrow> nat \<Rightarrow> rat" where
  "percent lib a b = fl lib (fl lib (of_nat a / of_nat b) * 100)"

text \<open>
  The guarded parse shared by the two loops over completed tasks: both fields truthy, then
  \<^verbatim>\<open>fromisoformat\<close> of the due date, then of the completion date; a ValueError of either
  goes to \<^verbatim>\<open>continue\<close>.  The result is the pair \<open>(due_date, completed_at)\<close>.
\<close>

definition both_dates :: "pylib \<Rightarrow> task \<Rightarrow> (datetime \<times> datetime) option" where
  "both_dates lib t =
     (case due_date t of
        None \<Rightarrow> None
      | Some ds \<Rightarrow>
          (case completed_at t of
             None \<Rightarrow> None
           | Some cs \<Rightarrow>
               if ds = [] \<or> cs = [] then None
               else
                 (case fromisoformat lib ds of
                    None \<Rightarrow> None
                  | Some due \<Rightarrow>
                      (case fromisoformat lib cs of
                         None \<Rightarrow> None
                       | Some completed \<Rightarrow> Some (due, completed)))))"

text \<open>One iteration of the loop of \<^verbatim>\<open>analyze_completion_rate\<close> on the pair
  \<open>(on_time_count, late_count)\<close>; the TypeError of the comparison goes to
  \<^verbatim>\<open>continue\<close>.\<close>

definition rate_step :: "pylib \<Rightarrow> task \<Rightarrow> nat \<times> nat \<Rightarrow> nat \<times> nat" where
  "rate_step lib t acc =
     (case both_dates lib t of
        None \<Rightarrow> acc
      | Some (due, completed) \<Rightarrow>
          (case dt_le completed due of
             Inl e \<Rightarrow> acc
           | Inr on_time \<Rightarrow> if on_time then (Suc (fst acc), snd acc) else (fst acc, Suc (snd acc))))"

record completion_rate_insight =
  completion_rate :: rat
  on_time_percentage :: pynum
  completed_count :: nat
  pending_count :: nat
  cr_message :: string

definition analyze_completion_rate ::
  "pylib \<Rightarrow> task list \<Rightarrow> task list \<Rightarrow> completion_rate_insight option" where
  "analyze_completion_rate lib completed_tasks pending_tasks =
     (let total_tasks = length completed_tasks + length pending_tasks
      in if total_tasks = 0 then None
         else
           (let rate = percent lib (length completed_tasks) total_tasks;
                counts = fold (rate_step lib) completed_tasks (0, 0);
                on_time_count = fst counts;
                late_count = snd counts;
                total_with_due_date = on_time_count + late_count;
                on_time = (if 0 < total_with_due_date
                           then PyFloat (percent lib on_time_count total_with_due_date)
                           else PyInt 0)
            in Some \<lparr>completion_rate = round1 lib rate,
                     on_time_percentage = py_round1 lib on_time,
                     completed_count = length completed_tasks,
                     pending_count = length pending_tasks,
                     cr_message = ''You've completed '' @ fstr lib (round1 lib rate)
                       @ ''% of your tasks, with '' @ str_num lib (py_round1 lib on_time)
                       @ ''% completed on time.''\<rparr>))"

section \<open>The category-performance analyzer: \<^verbatim>\<open>analyze_category_performance\<close>\<close>

text \<open>The value stored per category (keys \<^verbatim>\<open>count\<close>, \<^verbatim>\<open>on_time\<close>,
  \<^verbatim>\<open>total_with_due_date\<close>).\<close>

record category_data =
  cd_count :: nat
  cd_on_time :: nat
  cd_total_with_due_date :: nat

text \<open>A Python dictionary keeps its keys in insertion order: \<^verbatim>\<open>d[k] = v\<close> replaces the
  value of a key in place and appends a new key.\<close>

fun dict_set :: "'k \<Rightarrow> 'v \<Rightarrow> ('k \<times> 'v) list \<Rightarrow> ('k \<times> 'v) list" where
  "dict_set k v [] = [(k, v)]"
| "dict_set k v (kv # kvs) = (if fst kv = k then (k, v) # kvs else kv # dict_set k v kvs)"

text \<open>One iteration of the grouping loop.  \<^verbatim>\<open>total_with_due_date\<close> is incremented after
  both dates have parsed and before they are compared, so a TypeError of the comparison
  leaves it incremented.\<close>

definition category_step ::
  "pylib \<Rightarrow> task \<Rightarrow> (string \<times> category_data) list \<Rightarrow> (string \<times> category_data) list" where
  "category_step lib t categories =
     (let category = category_or_default t;
          data = (case map_of categories category of
                    None \<Rightarrow> \<lparr>cd_count = 0, cd_on_time = 0, cd_total_with_due_date = 0\<rparr>
                  | Some d \<Rightarrow> d);
          data = data\<lparr>cd_count := cd_count data + 1\<rparr>;
          data =
            (case both_dates lib t of
               None \<Rightarrow> data
             | Some (due, completed) \<Rightarrow>
                 (let data = data\<lparr>cd_total_with_due_date := cd_total_with_due_date data + 1\<rparr>
                  in case dt_le completed due of
                       Inl e \<Rightarrow> data
                     | Inr on_time \<Rightarrow>
                         if on_time then data\<lparr>cd_on_time := cd_on_time data + 1\<rparr> else data))
      in dict_set category data categories)"

definition group_categories :: "pylib \<Rightarrow> task list \<Rightarrow> (string \<times> category_data) list" where
  "group_categories lib completed_tasks = fold (category_step lib) completed_tasks []"

record category_entry =
  ce_category :: string
  task_count :: nat
  ce_on_time_percentage :: pynum

record category_performance =
  categories :: "category_entry list"
  cp_message :: string

definition category_entry_of :: "pylib \<Rightarrow> string \<times> category_data \<Rightarrow> category_entry" where
  "category_entry_of lib kv =
     (let data = snd kv;
          on_time = (if 0 < cd_total_with_due_date data
                     then PyFloat (percent lib (cd_on_time data) (cd_total_with_due_date data))
                     else PyInt 0)
      in \<lparr>ce_category = fst kv,
          task_count = cd_count data,
          ce_on_time_percentage = py_round1 lib on_time\<rparr>)"

text \<open>\<^verbatim>\<open>max(xs, key=key)\<close> and \<^verbatim>\<open>min(xs, key=key)\<close>: the first element with the
  greatest (least) key; ValueError on an empty list.\<close>

fun max_from :: "('a \<Rightarrow> rat) \<Rightarrow> 'a \<Rightarrow> 'a list \<Rightarrow> 'a" where
  "max_from key best [] = best"
| "max_from key best (x # xs) = max_from key (if key best < key x then x else best) xs"

fun min_from :: "('a \<Rightarrow> rat) \<Rightarrow> 'a \<Rightarrow> 'a list \<Rightarrow> 'a" where
  "min_from key best [] = best"
| "min_from key best (x # xs) = min_from key (if key x < key best then x else best) xs"

definition py_max :: "('a \<Rightarrow> rat) \<Rightarrow> 'a list \<Rightarrow> error + 'a" where
  "py_max key xs = (case xs of [] \<Rightarrow> Inl ValueError | x # rest \<Rightarrow> Inr (max_from key x rest))"

definition py_min :: "('a \<Rightarrow> rat) \<Rightarrow> 'a list \<Rightarrow> error + 'a" where
  "py_min key xs = (case xs of [] \<Rightarrow> Inl ValueError | x # rest \<Rightarrow> Inr (min_from key x rest))"

definition quoted :: "string \<Rightarrow> string" where
  "quoted s = [CHR 0x27] @ s @ [CHR 0x27]"

definition best_worst_message :: "pylib \<Rightarrow> category_entry \<Rightarrow> category_entry \<Rightarrow> string" where
  "best_worst_message lib best_category worst_category =
     ''You perform best in '' @ quoted (ce_category best_category) @ '' tasks (''
       @ str_num lib (ce_on_time_percentage best_category) @ ''% on time)''
     @ (if num_val (ce_on_time_percentage worst_category) < 70
        then '' and may need improvement in '' @ quoted (ce_category worst_category) @ '' (''
               @ str_num lib (ce_on_time_percentage worst_category) @ ''% on time)''
        else [])"

definition single_category_message :: "category_entry \<Rightarrow> string" where
  "single_category_message first =
     ''You've completed '' @ str_nat (task_count first) @ '' tasks in the ''
       @ quoted (ce_category first) @ '' category''"

definition category_message :: "pylib \<Rightarrow> category_entry list \<Rightarrow> error + string" where
  "category_message lib category_performance =
     (if 1 < length category_performance then
        (case py_max (\<lambda>x. num_val (ce_on_time_percentage x)) category_performance of
           Inl e \<Rightarrow> Inl e
         | Inr best_category \<Rightarrow>
             (case py_min (\<lambda>x. num_val (ce_on_time_percentage x)) category_performance of
                Inl e \<Rightarrow> Inl e
              | Inr worst_category \<Rightarrow> Inr (best_worst_message lib best_category worst_category)))
      else
        (case category_performance of
           [] \<Rightarrow> Inl IndexError
         | first # rest \<Rightarrow> Inr (single_category_message first)))"

definition sorted_categories :: "pylib \<Rightarrow> task list \<Rightarrow> category_entry list" where
  "sorted_categories lib completed_tasks =
     sort_desc (\<lambda>x. int (task_count x))
       (map (category_entry_of lib) (group_categories lib completed_tasks))"

definition analyze_category_performance ::
  "pylib \<Rightarrow> task list \<Rightarrow> error + category_performance option" where
  "analyze_category_performance lib completed_tasks =
     (if completed_tasks = [] then Inr None
      else
        (let category_performance = sorted_categories lib completed_tasks
         in case category_message lib category_performance of
              Inl e \<Rightarrow> Inl e
            | Inr message \<Rightarrow>
                Inr (Some \<lparr>categories = category_performance, cp_message = message\<rparr>)))"

section \<open>The insight generator: \<^verbatim>\<open>generate_task_insights\<close>\<close>

text \<open>The decoded \<^verbatim>\<open>insight_data\<close> of an insight, one constructor per analyzer.\<close>

datatype insight_payload =
  ProductiveTime productive_time
| CompletionRate completion_rate_insight
| CategoryPerformance category_performance
| TaskRecommendations task_recommendations

text \<open>A row appended to \<^verbatim>\<open>insights\<close> and then inserted into
  \<^verbatim>\<open>productivity_insights\<close>.\<close>

record insight =
  user_id :: string
  insight_type :: string
  insight_data :: insight_payload

text \<open>\<^verbatim>\<open>if result: insights.append({...})\<close>: a returned dictionary is never empty, so it
  is truthy, and \<^verbatim>\<open>None\<close> is falsy.\<close>

definition append_insight :: "string \<Rightarrow> string \<Rightarrow> insight_payload option \<Rightarrow> insight list" where
  "append_insight uid ty result =
     (case result of
        None \<Rightarrow> []
      | Some payload \<Rightarrow> [\<lparr>user_id = uid, insight_type = ty, insight_data = payload\<rparr>])"

text \<open>
  The part of \<^verbatim>\<open>generate_task_insights\<close> between the three reads of the database
  (parameters \<open>completed_tasks\<close>, \<open>pending_tasks\<close>, \<open>activity_logs\<close>) and the inserts:
  the value is the list \<^verbatim>\<open>insights\<close> that is inserted row by row.  The function then
  commits and calls \<^verbatim>\<open>schedule_smart_notifications\<close>.
\<close>

definition generate_task_insights ::
  "pylib \<Rightarrow> (nat \<Rightarrow> datetime) \<Rightarrow> string \<Rightarrow> task list \<Rightarrow> task list \<Rightarrow> activity list
     \<Rightarrow> error + insight list" where
  "generate_task_insights lib clock uid completed_tasks pending_tasks activity_logs =
     (if 5 < length completed_tasks then
        (case analyze_category_performance lib completed_tasks of
           Inl e \<Rightarrow> Inl e
         | Inr category_performance \<Rightarrow>
             Inr (append_insight uid ''productive_time''
                    (map_option ProductiveTime
                       (analyze_productive_time lib completed_tasks activity_logs))
                  @ append_insight uid ''completion_rate''
                      (map_option CompletionRate
                         (analyze_completion_rate lib completed_tasks pending_tasks))
                  @ append_insight uid ''category_performance''
                      (map_option CategoryPerformance category_performance)
                  @ (if 1 < length pending_tasks
                     then append_insight uid ''task_recommendations''
                            (map_option TaskRecommendations
                               (recommend_task_order lib clock pending_tasks completed_tasks))
                     else [])))
      else Inr [])"

section \<open>A sample library and sample rows\<close>

text \<open>
  Concrete values for the examples.  \<open>naive_at day h m\<close> is the naive datetime at
  \<open>h:m:00\<close> on the day with index \<open>day\<close> (days since 0001-01-01; 2024-03-10 is day
  738954, its proleptic Gregorian ordinal less one).  \<open>sample_lib\<close> parses the strings
  of \<open>sample_dates\<close> and rejects every other string, renders the two formats the planner
  uses, computes with exact rationals (\<open>fl\<close> and \<open>round1\<close> leave a value with one decimal
  unchanged, as binary64 arithmetic does on the values of the examples) and prints a
  float with one decimal.
\<close>

definition naive_at :: "int \<Rightarrow> int \<Rightarrow> int \<Rightarrow> datetime" where
  "naive_at day h m = \<lparr>wall = ((day * 24 + h) * 60 + m) * 60000000, utcoffset = None\<rparr>"

definition sample_dates :: "(string \<times> datetime) list" where
  "sample_dates =
     [(''2024-03-09T09:00:00'', naive_at 738953 9 0),
      (''2024-03-10T08:15:00'', naive_at 738954 8 15),
      (''2024-03-10T17:00:00'', naive_at 738954 17 0),
      (''2024-03-11T09:30:00'', naive_at 738955 9 30),
      (''2024-03-12T12:00:00'', naive_at 738956 12 0),
      (''2024-03-20T09:00:00'', naive_at 738964 9 0),
      (''2024-03-10T17:00:00+00:00'', (naive_at 738954 17 0)\<lparr>utcoffset := Some 0\<rparr>)]"

definition sample_now :: datetime where
  "sample_now = naive_at 738954 9 0"

definition sample_strftime :: "datetime \<Rightarrow> string \<Rightarrow> string" where
  "sample_strftime d fmt =
     (if fmt = ''%Y-%m-%d'' \<and> d = sample_now then ''2024-03-10''
      else if fmt = ''%Y-%m-%d %H:%M:%S'' \<and> d = sample_now then ''2024-03-10 09:00:00''
      else if fmt = ''%Y-%m-%d %H:%M:%S'' \<and> d = plus_hours sample_now 2 then ''2024-03-10 11:00:00''
      else [])"

definition sample_fstr :: "rat \<Rightarrow> string" where
  "sample_fstr x = str_int \<lfloor>x\<rfloor> @ ''.'' @ str_nat (nat (\<lfloor>x * 10\<rfloor> mod 10))"

definition sample_lib :: pylib where
  "sample_lib =
     \<lparr>fromisoformat = map_of sample_dates,
      strftime = sample_strftime,
      fl = (\<lambda>x. x),
      round1 = (\<lambda>x. x),
      fstr = sample_fstr\<rparr>"

definition sample_task :: "string \<Rightarrow> int option \<Rightarrow> string option \<Rightarrow> task" where
  "sample_task name p due =
     \<lparr>task_id = name, title = name, category = None, priority = p, due_date = due,
      completed_at = None\<rparr>"

definition sample_done :: "string \<Rightarrow> string option \<Rightarrow> string option \<Rightarrow> string option \<Rightarrow> task" where
  "sample_done name cat due done =
     \<lparr>task_id = name, title = name, category = cat, priority = Some 3, due_date = due,
      completed_at = done\<rparr>"

definition sample_settings :: "int option \<Rightarrow> notification_settings" where
  "sample_settings push =
     \<lparr>enable_push = push, focus_hours = Some ''[]'', notification_frequency = Some ''medium''\<rparr>"

section \<open>Notions the properties are stated with\<close>

text \<open>
  The whole-day difference between a task's due date and a reading of the clock: defined
  when the due date is a non-empty string that parses and that can be subtracted from
  the reading (both naive, or both aware).
\<close>

definition days_until_due :: "pylib \<Rightarrow> datetime \<Rightarrow> task \<Rightarrow> int option" where
  "days_until_due lib now t =
     (case due_date t of
        None \<Rightarrow> None
      | Some s \<Rightarrow>
          if s = [] then None
          else
            (case fromisoformat lib s of
               None \<Rightarrow> None
             | Some due \<Rightarrow>
                 (case dt_sub due now of Inl e \<Rightarrow> None | Inr d \<Rightarrow> Some (d div 86400000000))))"

text \<open>The urgency bonus as the specification words it: 40 when overdue, 30 for 0 days,
  20 for exactly 1 day, 10 for 2 to 6 days, 0 beyond and with no usable due date.\<close>

definition urgency_bonus :: "int option \<Rightarrow> int" where
  "urgency_bonus days =
     (case days of
        None \<Rightarrow> 0
      | Some d \<Rightarrow>
          if d < 0 then 40
          else if d = 0 then 30
          else if d = 1 then 20
          else if 2 \<le> d \<and> d \<le> 6 then 10
          else 0)"

text \<open>A date field that holds a non-empty string which \<^verbatim>\<open>fromisoformat\<close> accepts.\<close>

definition parseable :: "pylib \<Rightarrow> string option \<Rightarrow> bool" where
  "parseable lib v = (case v of None \<Rightarrow> False | Some s \<Rightarrow> s \<noteq> [] \<and> fromisoformat lib s \<noteq> None)"

text \<open>The number of tasks whose completion timestamp parses and falls in the hour \<open>h\<close>.\<close>

definition completions_in_hour :: "pylib \<Rightarrow> task list \<Rightarrow> nat \<Rightarrow> nat" where
  "completions_in_hour lib tasks h = length (filter (\<lambda>t. completion_hour lib t = Some h) tasks)"

text \<open>The order of the productive hours: more completions first, and the lower hour first
  among hours with equally many.\<close>

definition busier :: "(nat \<Rightarrow> nat) \<Rightarrow> nat \<Rightarrow> nat \<Rightarrow> bool" where
  "busier cnt a b = (cnt b < cnt a \<or> (cnt b = cnt a \<and> a < b))"

text \<open>
  Whether a completed task was on time: \<open>Some True\<close> when it was completed at or before
  its due date, \<open>Some False\<close> when it was late, \<open>None\<close> when the task is left out of
  the on-time sample (a date is missing, empty or does not parse, or the two dates
  cannot be compared).
\<close>

definition completed_on_time :: "pylib \<Rightarrow> task \<Rightarrow> bool option" where
  "completed_on_time lib t =
     (case both_dates lib t of
        None \<Rightarrow> None
      | Some (due, completed) \<Rightarrow>
          (case dt_le completed due of Inl e \<Rightarrow> None | Inr on_time \<Rightarrow> Some on_time))"


text \<open>A row with an empty category string, with the string replaced by NULL.\<close>

definition blank_to_null :: "task \<Rightarrow> task" where
  "blank_to_null t = (if category t = Some [] then t\<lparr>category := None\<rparr> else t)"

section \<open>Evaluation of the samples\<close>

lemmas sample_simps = sample_settings_def sample_task_def sample_done_def sample_lib_def
  sample_dates_def sample_now_def naive_at_def sample_strftime_def sample_fstr_def
  plus_hours_def

lemmas str_simps = str_nat.simps str_int_def digit_char_def char_of_def bit_iff_odd quoted_def

section \<open>The notification planner\<close>




text \<open>
  C1.  The claim: no entry point raises on a malformed date field; in particular the
  planner completes and returns a result when a pending task has a non-empty due date
  that does not parse.  The analyzers and the recommender catch the ValueError; the
  planner's \<^verbatim>\<open>high_priority\<close> comprehension calls \<^verbatim>\<open>fromisoformat\<close> with no
  handler.  With notifications enabled and one pending task of priority 1 whose due date
  is the string \<^verbatim>\<open>not-a-date\<close>, the call ends with ValueError and returns nothing.
\<close>

theorem schedule_raises_on_unparseable_due_date:
  "schedule_smart_notifications sample_lib sample_now (Some (sample_settings (Some 1)))
     [sample_task ''report'' (Some 1) (Some ''not-a-date'')] None = Inl ValueError"
  by (simp add: schedule_smart_notifications_def sample_settings_def truthy_int_def
      sample_task_def is_high_priority_def sample_lib_def sample_dates_def)




section \<open>The task-order recommender\<close>

lemma due_date_score_bonus:
  "due_date_score lib now t = urgency_bonus (days_until_due lib now t)"
  by (simp add: due_date_score_def urgency_bonus_def days_until_due_def td_days_def Let_def
      split: option.splits sum.splits)

lemma length_task_scores [simp]:
  "length (task_scores lib clock pending) = length pending"
  by (simp add: task_scores_def)

lemma nth_task_scores:
  "i < length pending \<Longrightarrow>
     task_scores lib clock pending ! i = score_entry lib (clock i) (pending ! i)"
  by (simp add: task_scores_def nth_enumerate_eq)

lemma task_scores_cong:
  assumes "\<forall>i < length pending. clock' i = clock i"
  shows "task_scores lib clock' pending = task_scores lib clock pending"
  by (rule nth_equalityI) (simp_all add: nth_task_scores assms)

lemma sorted_sort_desc:
  "sorted_wrt (\<lambda>a b. key b \<le> key a) (sort_desc key xs)"
proof -
  have "sorted (map (\<lambda>x. - key x) (sort_desc key xs))"
    unfolding sort_desc_def by (rule sorted_sort_key)
  then show ?thesis by (simp add: sorted_map)
qed

lemma sort_desc_stable:
  "filter (\<lambda>e. key e = k) (sort_desc key xs) = filter (\<lambda>e. key e = k) xs"
  using sort_key_stable [of "\<lambda>x. - key x" "- k" xs] by (simp add: sort_desc_def)

lemma mset_sort_desc [simp]: "mset (sort_desc key xs) = mset xs"
  by (simp add: sort_desc_def)

lemma length_sort_desc [simp]: "length (sort_desc key xs) = length xs"
  by (simp add: sort_desc_def)

lemma set_sort_desc [simp]: "set (sort_desc key xs) = set xs"
  by (simp add: sort_desc_def)

text \<open>
  C3, as stated: the score is \<open>(6 - priority) * 10\<close> plus the urgency bonus, the priority
  being taken as 3 only when it is missing or null.  \<^verbatim>\<open>task['priority'] or 3\<close> also
  replaces the priority 0: a pending task of priority 0 that was due the day before
  scores \<open>30 + 40 = 70\<close>, not \<open>(6 - 0) * 10 + 40 = 100\<close>.
\<close>

theorem recommend_priority_zero_counterexample:
  "map_option (\<lambda>r. map score (recommended_tasks r))
     (recommend_task_order sample_lib (\<lambda>i. sample_now)
        [sample_task ''zero'' (Some 0) (Some ''2024-03-09T09:00:00'')] []) = Some [70]
   \<and> (70::int) \<noteq> (6 - 0) * 10 + 40"
  by (simp add: recommend_task_order_def task_scores_def sort_desc_def score_entry_def
      base_score_def priority_or_default_def due_date_score_def dt_sub_def td_days_def
      sample_simps)

text \<open>
  C3, amended.  For every pending task (the one at position \<open>i\<close>, scored at the clock
  reading \<open>clock i\<close>) the score is \<open>(6 - priority) * 10\<close>, the priority taken as 3 when
  it is missing, null or 0, plus the urgency bonus of the whole-day difference between
  the due date and the reading: 40 for negative days, 30 for 0 days, 20 for exactly 1
  day, 10 for 2 to 6 days, and 0 otherwise or when the task has no due date, an empty
  one, one that does not parse or one that cannot be subtracted from the reading.  The
  witness holds the two scenarios of the specification: priority 1 due the day before
  scores 90, priority 5 due in ten days scores 10.
\<close>

theorem score_formula:
  "i < length pending \<Longrightarrow>
     score (task_scores lib clock pending ! i) =
       (6 - (case priority (pending ! i) of None \<Rightarrow> 3 | Some p \<Rightarrow> if p = 0 then 3 else p)) * 10
       + urgency_bonus (days_until_due lib (clock i) (pending ! i))"
  by (simp add: nth_task_scores score_entry_def base_score_def priority_or_default_def
      due_date_score_bonus)

theorem score_formula_witness:
  "score (task_scores sample_lib (\<lambda>i. sample_now)
       [sample_task ''a'' (Some 1) (Some ''2024-03-09T09:00:00''),
        sample_task ''b'' (Some 5) (Some ''2024-03-20T09:00:00'')] ! 0) = 90
   \<and> score (task_scores sample_lib (\<lambda>i. sample_now)
       [sample_task ''a'' (Some 1) (Some ''2024-03-09T09:00:00''),
        sample_task ''b'' (Some 5) (Some ''2024-03-20T09:00:00'')] ! 1) = 10"
  using score_formula [of 0 "[sample_task ''a'' (Some 1) (Some ''2024-03-09T09:00:00''),
        sample_task ''b'' (Some 5) (Some ''2024-03-20T09:00:00'')]" sample_lib "\<lambda>i. sample_now"]
    score_formula [of 1 "[sample_task ''a'' (Some 1) (Some ''2024-03-09T09:00:00''),
        sample_task ''b'' (Some 5) (Some ''2024-03-20T09:00:00'')]" sample_lib "\<lambda>i. sample_now"]
  by (simp add: urgency_bonus_def days_until_due_def dt_sub_def sample_simps)

text \<open>
  C4, as stated: every integer priority outside 1 to 5 keeps the base score
  \<open>(6 - priority) * 10\<close>, which lies outside 10 to 50, and only a missing or null
  priority becomes 3.  The priority 0 is outside 1 to 5 and is replaced by 3 as well: its
  base score is 30, inside the range, not 60.
\<close>

theorem recommend_priority_zero_base_counterexample:
  "base_score (sample_task ''zero'' (Some 0) None) = 30
   \<and> map_option (\<lambda>r. map score (recommended_tasks r))
       (recommend_task_order sample_lib (\<lambda>i. sample_now)
          [sample_task ''zero'' (Some 0) None] []) = Some [30]
   \<and> (30::int) \<noteq> (6 - 0) * 10
   \<and> \<not> ((30::int) < 10 \<or> 50 < (30::int))"
  by (simp add: recommend_task_order_def task_scores_def sort_desc_def score_entry_def
      base_score_def priority_or_default_def due_date_score_def sample_simps)

text \<open>
  C4, amended.  No pending task is rejected: every one gets an entry and the recommender
  returns a result.  For a task whose priority is a non-zero integer outside 1 to 5 the
  entry keeps that priority and the base score is \<open>(6 - priority) * 10\<close>, which lies
  outside 10 to 50.  A missing or null priority, and the priority 0, are replaced by the
  default 3 (base score 30).
\<close>

theorem out_of_range_priority:
  "i < length pending \<Longrightarrow>
     length (task_scores lib clock pending) = length pending
     \<and> recommend_task_order lib clock pending completed \<noteq> None
     \<and> (priority (pending ! i) = Some p \<and> p \<noteq> 0 \<and> (p < 1 \<or> 5 < p) \<longrightarrow>
          rec_priority (task_scores lib clock pending ! i) = p
          \<and> base_score (pending ! i) = (6 - p) * 10
          \<and> (base_score (pending ! i) < 10 \<or> 50 < base_score (pending ! i))
          \<and> score (task_scores lib clock pending ! i)
              = (6 - p) * 10 + due_date_score lib (clock i) (pending ! i))
     \<and> (priority (pending ! i) = None \<or> priority (pending ! i) = Some 0 \<longrightarrow>
          rec_priority (task_scores lib clock pending ! i) = 3
          \<and> base_score (pending ! i) = 30)"
  by (auto simp: nth_task_scores score_entry_def base_score_def priority_or_default_def
      recommend_task_order_def)

theorem out_of_range_priority_witness:
  "rec_priority (task_scores sample_lib (\<lambda>i. sample_now)
       [sample_task ''nine'' (Some 9) None, sample_task ''neg'' (Some (- 2)) None,
        sample_task ''null'' None None] ! 0) = 9
   \<and> score (task_scores sample_lib (\<lambda>i. sample_now)
       [sample_task ''nine'' (Some 9) None, sample_task ''neg'' (Some (- 2)) None,
        sample_task ''null'' None None] ! 0) = - 30
   \<and> score (task_scores sample_lib (\<lambda>i. sample_now)
       [sample_task ''nine'' (Some 9) None, sample_task ''neg'' (Some (- 2)) None,
        sample_task ''null'' None None] ! 1) = 80
   \<and> base_score (sample_task ''null'' None None) = 30"
  using out_of_range_priority [of 0 "[sample_task ''nine'' (Some 9) None,
        sample_task ''neg'' (Some (- 2)) None, sample_task ''null'' None None]"
        sample_lib "\<lambda>i. sample_now" "[]" 9]
    out_of_range_priority [of 1 "[sample_task ''nine'' (Some 9) None,
        sample_task ''neg'' (Some (- 2)) None, sample_task ''null'' None None]"
        sample_lib "\<lambda>i. sample_now" "[]" "- 2"]
    out_of_range_priority [of 2 "[sample_task ''nine'' (Some 9) None,
        sample_task ''neg'' (Some (- 2)) None, sample_task ''null'' None None]"
        sample_lib "\<lambda>i. sample_now" "[]" 0]
  by (simp add: due_date_score_def sample_simps)

text \<open>
  C9.  For a non-empty list of pending tasks the recommender returns a result \<open>r\<close>.
  There is a sequence \<open>S\<close> holding exactly the entries of the pending tasks, sorted
  non-increasing by score, in which the entries of each score stand in their input order
  (the sort is stable); the recommended tasks are the first 5 entries of \<open>S\<close>, all of
  them when there are fewer than 5 pending tasks, and so are sorted non-increasing
  themselves.  The result is a function of the pending tasks and of the clock readings
  alone: an invocation that sees the same readings returns the same \<open>r\<close>.
\<close>

theorem recommend_sorted_stable_top5:
  assumes "pending \<noteq> []"
  shows "\<exists>r S. recommend_task_order lib clock pending completed = Some r
     \<and> mset S = mset (task_scores lib clock pending)
     \<and> sorted_wrt (\<lambda>a b. score b \<le> score a) S
     \<and> (\<forall>k. filter (\<lambda>e. score e = k) S
              = filter (\<lambda>e. score e = k) (task_scores lib clock pending))
     \<and> recommended_tasks r = take 5 S
     \<and> length (recommended_tasks r) = min 5 (length pending)
     \<and> sorted_wrt (\<lambda>a b. score b \<le> score a) (recommended_tasks r)
     \<and> (\<forall>clock' completed'. (\<forall>i < length pending. clock' i = clock i) \<longrightarrow>
           recommend_task_order lib clock' pending completed' = Some r)"
proof -
  let ?S = "sort_desc score (task_scores lib clock pending)"
  let ?r = "\<lparr>recommended_tasks = take 5 ?S,
             tr_message = ''Here's your suggested task order for maximum productivity'',
             reasoning = ''Based on urgency, priority, and your past completion patterns''\<rparr>"
  have ret: "recommend_task_order lib clock pending completed = Some ?r"
    using assms by (simp add: recommend_task_order_def)
  have srt: "sorted_wrt (\<lambda>a b. score b \<le> score a) ?S"
    by (rule sorted_sort_desc)
  have top: "sorted_wrt (\<lambda>a b. score b \<le> score a) (take 5 ?S)"
    using srt by (rule sorted_wrt_take)
  have det: "\<forall>clock' completed'. (\<forall>i < length pending. clock' i = clock i) \<longrightarrow>
           recommend_task_order lib clock' pending completed' = Some ?r"
  proof (intro allI impI)
    fix clock' completed'
    assume "\<forall>i < length pending. clock' i = clock i"
    then have "task_scores lib clock' pending = task_scores lib clock pending"
      by (rule task_scores_cong)
    then show "recommend_task_order lib clock' pending completed' = Some ?r"
      using assms by (simp add: recommend_task_order_def)
  qed
  have len: "length (take 5 ?S) = min 5 (length pending)"
    by simp
  show ?thesis
    apply (rule exI [of _ ?r])
    apply (rule exI [of _ ?S])
    using ret srt top det len by (simp add: sort_desc_stable)
qed

theorem recommend_sorted_stable_top5_witness:
  "map_option (\<lambda>r. map rec_id (recommended_tasks r))
     (recommend_task_order sample_lib (\<lambda>i. sample_now)
        [sample_task ''a'' (Some 3) None, sample_task ''b'' (Some 1) None,
         sample_task ''c'' (Some 3) None, sample_task ''d'' (Some 3) None,
         sample_task ''e'' (Some 5) None, sample_task ''f'' (Some 2) None] [])
   = Some [''b'', ''f'', ''a'', ''c'', ''d'']"
  using recommend_sorted_stable_top5 [of "[sample_task ''a'' (Some 3) None,
         sample_task ''b'' (Some 1) None,
         sample_task ''c'' (Some 3) None, sample_task ''d'' (Some 3) None,
         sample_task ''e'' (Some 5) None, sample_task ''f'' (Some 2) None]"
       sample_lib "\<lambda>i. sample_now" "[]"]
  by (simp add: recommend_task_order_def task_scores_def sort_desc_def score_entry_def
      base_score_def priority_or_default_def due_date_score_def sample_simps)

section \<open>The category-performance analyzer\<close>

lemma map_of_dict_set: "map_of (dict_set k v kvs) = (map_of kvs)(k \<mapsto> v)"
  by (induction kvs) (auto simp: fun_eq_iff)

lemma keys_dict_set:
  "map fst (dict_set k v kvs) = (if k \<in> fst ` set kvs then map fst kvs else map fst kvs @ [k])"
  by (induction kvs) auto

lemma keys_category_step:
  "map fst (category_step lib t acc) =
     (if category_or_default t \<in> fst ` set acc then map fst acc
      else map fst acc @ [category_or_default t])"
  by (simp add: category_step_def Let_def keys_dict_set)

lemma count_category_step:
  "(case map_of (category_step lib t acc) c of None \<Rightarrow> 0 | Some d \<Rightarrow> cd_count d) =
     (case map_of acc c of None \<Rightarrow> 0 | Some d \<Rightarrow> cd_count d)
     + (if category_or_default t = c then 1 else 0)"
  by (simp add: category_step_def Let_def map_of_dict_set
      split: option.splits sum.splits prod.splits)

lemma keyset_category_step:
  "fst ` set (category_step lib t acc) = insert (category_or_default t) (fst ` set acc)"
proof -
  have "set (map fst (category_step lib t acc)) = insert (category_or_default t) (fst ` set acc)"
    by (simp only: keys_category_step) auto
  then show ?thesis by simp
qed

lemma keys_fold_category_step:
  "fst ` set (fold (category_step lib) ts acc) =
     fst ` set acc \<union> category_or_default ` set ts"
  by (induction ts arbitrary: acc) (simp_all add: keyset_category_step)

lemma distinct_fold_category_step:
  "distinct (map fst acc) \<Longrightarrow> distinct (map fst (fold (category_step lib) ts acc))"
  by (induction ts arbitrary: acc) (auto simp: keys_category_step)

lemma count_fold_category_step:
  "(case map_of (fold (category_step lib) ts acc) c of None \<Rightarrow> 0 | Some d \<Rightarrow> cd_count d) =
     (case map_of acc c of None \<Rightarrow> 0 | Some d \<Rightarrow> cd_count d)
     + length (filter (\<lambda>t. category_or_default t = c) ts)"
proof (induction ts arbitrary: acc)
  case Nil
  then show ?case by simp
next
  case (Cons t ts)
  show ?case
    using Cons.IH [of "category_step lib t acc"] count_category_step [of lib t acc c]
    by simp
qed

lemma keys_group_categories:
  "fst ` set (group_categories lib ts) = category_or_default ` set ts"
  "distinct (map fst (group_categories lib ts))"
  by (simp_all add: group_categories_def keys_fold_category_step distinct_fold_category_step)

lemma count_group_categories:
  "(case map_of (group_categories lib ts) c of None \<Rightarrow> 0 | Some d \<Rightarrow> cd_count d) =
     length (filter (\<lambda>t. category_or_default t = c) ts)"
  using count_fold_category_step [of lib ts "[]" c] by (simp add: group_categories_def)

lemma length_group_categories:
  "length (group_categories lib ts) = card (category_or_default ` set ts)"
proof -
  have "length (group_categories lib ts) = length (map fst (group_categories lib ts))"
    by simp
  also have "\<dots> = card (set (map fst (group_categories lib ts)))"
    using keys_group_categories(2) [of lib ts] by (simp only: distinct_card)
  also have "\<dots> = card (fst ` set (group_categories lib ts))"
    by simp
  finally show ?thesis by (simp only: keys_group_categories(1))
qed

lemma length_sorted_categories:
  "length (sorted_categories lib ts) = card (category_or_default ` set ts)"
  by (simp add: sorted_categories_def sort_desc_def length_group_categories)








lemma category_message_single:
  "category_message lib [e] = Inr (single_category_message e)"
  by (simp add: category_message_def)

lemma category_message_multi:
  assumes "1 < length (b # xs)"
  shows "category_message lib (b # xs) =
     Inr (best_worst_message lib
            (max_from (\<lambda>x. num_val (ce_on_time_percentage x)) b xs)
            (min_from (\<lambda>x. num_val (ce_on_time_percentage x)) b xs))"
  using assms by (simp add: category_message_def py_max_def py_min_def)

lemma analyze_category_performance_returns:
  assumes "completed \<noteq> []"
  shows "\<exists>m. category_message lib (sorted_categories lib completed) = Inr m
           \<and> analyze_category_performance lib completed =
               Inr (Some \<lparr>categories = sorted_categories lib completed, cp_message = m\<rparr>)"
proof -
  have "0 < card (category_or_default ` set completed)"
    using assms by (simp add: card_gt_0_iff)
  then have "sorted_categories lib completed \<noteq> []"
    using length_sorted_categories [of lib completed] by auto
  then obtain b xs where bx: "sorted_categories lib completed = b # xs"
    by (cases "sorted_categories lib completed") auto
  have "\<exists>m. category_message lib (b # xs) = Inr m"
  proof (cases xs)
    case Nil
    then show ?thesis by (simp add: category_message_single)
  next
    case (Cons y ys)
    then show ?thesis by (simp add: category_message_multi)
  qed
  then show ?thesis
    using assms bx by (auto simp: analyze_category_performance_def)
qed


lemmas cat_simps = analyze_category_performance_def sorted_categories_def group_categories_def
  category_step_def category_or_default_def both_dates_def dt_le_def dt_sub_def
  category_entry_of_def percent_def sort_desc_def category_message_def py_max_def py_min_def
  best_worst_message_def single_category_message_def Let_def


lemma category_or_default_blank [simp]:
  "category_or_default (blank_to_null t) = category_or_default t"
  by (simp add: category_or_default_def blank_to_null_def)

lemma both_dates_blank [simp]:
  "both_dates lib (blank_to_null t) = both_dates lib t"
  by (simp add: both_dates_def blank_to_null_def split: option.splits)

lemma category_step_blank:
  "category_step lib (blank_to_null t) = category_step lib t"
  by (rule ext) (simp add: category_step_def)

lemma group_categories_blank:
  "group_categories lib (map blank_to_null ts) = group_categories lib ts"
  by (simp add: group_categories_def fold_map comp_def category_step_blank)

lemma score_entry_blank:
  "score_entry lib now (blank_to_null t) = score_entry lib now t"
  by (simp add: score_entry_def base_score_def priority_or_default_def due_date_score_def
      category_or_default_def blank_to_null_def)

lemma task_scores_blank:
  "task_scores lib clock (map blank_to_null ps) = task_scores lib clock ps"
  by (rule nth_equalityI) (simp_all add: nth_task_scores score_entry_blank)

lemma category_or_default_Uncategorized:
  "(category_or_default t = ''Uncategorized'') =
     (category t = None \<or> category t = Some [] \<or> category t = Some ''Uncategorized'')"
  by (auto simp: category_or_default_def split: option.splits)

lemma category_or_default_nonempty: "category_or_default t \<noteq> []"
  by (simp add: category_or_default_def split: option.splits)

lemma task_count_sorted_categories:
  assumes "e \<in> set (sorted_categories lib ts)"
  shows "task_count e = length (filter (\<lambda>t. category_or_default t = ce_category e) ts)"
    and "ce_category e \<in> category_or_default ` set ts"
proof -
  from assms obtain kv where kv: "kv \<in> set (group_categories lib ts)"
    and e: "e = category_entry_of lib kv"
    by (auto simp: sorted_categories_def)
  have "map_of (group_categories lib ts) (fst kv) = Some (snd kv)"
    using keys_group_categories(2) [of lib ts] kv by simp
  then have "cd_count (snd kv) = length (filter (\<lambda>t. category_or_default t = fst kv) ts)"
    using count_group_categories [of lib ts "fst kv"] by simp
  then show "task_count e = length (filter (\<lambda>t. category_or_default t = ce_category e) ts)"
    by (simp add: e category_entry_of_def Let_def)
  have "fst kv \<in> fst ` set (group_categories lib ts)" using kv by blast
  then show "ce_category e \<in> category_or_default ` set ts"
    by (simp add: keys_group_categories(1) e category_entry_of_def Let_def)
qed

lemma category_in_sorted_categories:
  assumes "t \<in> set ts"
  shows "\<exists>e \<in> set (sorted_categories lib ts). ce_category e = category_or_default t"
proof -
  have "category_or_default t \<in> fst ` set (group_categories lib ts)"
    using assms by (simp add: keys_group_categories(1))
  then obtain kv where "kv \<in> set (group_categories lib ts)" "fst kv = category_or_default t"
    by auto
  have "category_entry_of lib kv \<in> category_entry_of lib ` set (group_categories lib ts)"
    using \<open>kv \<in> set (group_categories lib ts)\<close> by (rule imageI)
  then have "category_entry_of lib kv \<in> set (sorted_categories lib ts)"
    by (simp add: sorted_categories_def)
  moreover have "ce_category (category_entry_of lib kv) = category_or_default t"
    using \<open>fst kv = category_or_default t\<close> by (simp add: category_entry_of_def Let_def)
  ultimately show ?thesis by blast
qed

text \<open>
  C10.  A task whose category is the empty string is treated as a task whose category is
  NULL: replacing the empty string by NULL in any rows changes neither the result of the
  category-performance analyzer nor that of the recommender.  The recommender annotates
  such a task with the category \<^verbatim>\<open>Uncategorized\<close>; the analyzer has no bucket with
  an empty name and counts the task in the bucket \<^verbatim>\<open>Uncategorized\<close>, together with the
  tasks whose category is NULL or that very string.
\<close>

theorem empty_category_is_uncategorized:
  "analyze_category_performance lib (map blank_to_null completed)
     = analyze_category_performance lib completed
   \<and> recommend_task_order lib clock (map blank_to_null pending) completed
     = recommend_task_order lib clock pending completed
   \<and> (i < length pending \<and> category (pending ! i) = Some [] \<longrightarrow>
        rec_category (task_scores lib clock pending ! i) = ''Uncategorized'')
   \<and> (\<forall>r. analyze_category_performance lib completed = Inr (Some r) \<longrightarrow>
        (\<forall>e \<in> set (categories r). ce_category e \<noteq> [])
        \<and> (\<forall>t \<in> set completed. category t = Some [] \<longrightarrow>
             (\<exists>e \<in> set (categories r). ce_category e = ''Uncategorized''
                \<and> task_count e =
                    length (filter (\<lambda>u. category u = None \<or> category u = Some []
                                      \<or> category u = Some ''Uncategorized'') completed))))"
proof -
  have a: "analyze_category_performance lib (map blank_to_null completed)
     = analyze_category_performance lib completed"
    by (simp add: analyze_category_performance_def sorted_categories_def group_categories_blank)
  have b: "recommend_task_order lib clock (map blank_to_null pending) completed
     = recommend_task_order lib clock pending completed"
    by (simp add: recommend_task_order_def task_scores_blank)
  have c: "i < length pending \<and> category (pending ! i) = Some [] \<longrightarrow>
        rec_category (task_scores lib clock pending ! i) = ''Uncategorized''"
    by (simp add: nth_task_scores score_entry_def category_or_default_def)
  have d: "(\<forall>e \<in> set (categories r). ce_category e \<noteq> [])
        \<and> (\<forall>t \<in> set completed. category t = Some [] \<longrightarrow>
             (\<exists>e \<in> set (categories r). ce_category e = ''Uncategorized''
                \<and> task_count e =
                    length (filter (\<lambda>u. category u = None \<or> category u = Some []
                                      \<or> category u = Some ''Uncategorized'') completed)))"
    if r: "analyze_category_performance lib completed = Inr (Some r)" for r
  proof -
    have cats: "categories r = sorted_categories lib completed"
      using r by (auto simp: analyze_category_performance_def Let_def
          split: if_splits sum.splits)
    have ne: "ce_category e \<noteq> []" if "e \<in> set (categories r)" for e
    proof -
      from that cats have "ce_category e \<in> category_or_default ` set completed"
        using task_count_sorted_categories(2) [of e lib completed] by simp
      then obtain t where "ce_category e = category_or_default t" by blast
      then show ?thesis by (simp add: category_or_default_nonempty)
    qed
    have un: "\<exists>e \<in> set (categories r). ce_category e = ''Uncategorized''
                \<and> task_count e =
                    length (filter (\<lambda>u. category u = None \<or> category u = Some []
                                      \<or> category u = Some ''Uncategorized'') completed)"
      if t: "t \<in> set completed" "category t = Some []" for t
    proof -
      from category_in_sorted_categories [OF t(1), of lib] obtain e
        where e: "e \<in> set (sorted_categories lib completed)"
          "ce_category e = category_or_default t"
        by blast
      have u: "ce_category e = ''Uncategorized''"
        using e(2) t(2) by (simp add: category_or_default_def)
      have "task_count e = length (filter (\<lambda>u. category_or_default u = ''Uncategorized'') completed)"
        using task_count_sorted_categories(1) [OF e(1)] u by simp
      then show ?thesis
        using e(1) u cats by (auto simp: category_or_default_Uncategorized)
    qed
    from ne un show ?thesis by blast
  qed
  from a b c d show ?thesis by blast
qed

theorem empty_category_is_uncategorized_witness:
  "map_option (map_option (\<lambda>r. map (\<lambda>e. (ce_category e, task_count e)) (categories r)))
     (case analyze_category_performance sample_lib
        [sample_done ''a'' (Some '''') None None, sample_done ''b'' (Some ''Work'') None None,
         sample_done ''c'' None None None] of Inl e \<Rightarrow> None | Inr v \<Rightarrow> Some v)
     = Some (Some [(''Uncategorized'', 2), (''Work'', 1)])
   \<and> map_option (\<lambda>r. map rec_category (recommended_tasks r))
       (recommend_task_order sample_lib (\<lambda>i. sample_now)
          [sample_done ''a'' (Some '''') None None, sample_done ''b'' (Some ''Work'') None None] [])
     = Some [''Uncategorized'', ''Work'']"
  using empty_category_is_uncategorized [of sample_lib
      "[sample_done ''a'' (Some '''') None None, sample_done ''b'' (Some ''Work'') None None,
         sample_done ''c'' None None None]" "\<lambda>i. sample_now"
      "[sample_done ''a'' (Some '''') None None, sample_done ''b'' (Some ''Work'') None None]" 0]
  by (simp add: cat_simps sample_simps recommend_task_order_def task_scores_def score_entry_def
      base_score_def priority_or_default_def due_date_score_def)

section \<open>The productive-time analyzer\<close>

lemma insort_desc_pairs:
  fixes x :: "nat \<times> nat"
  assumes "sorted_wrt (\<lambda>a b. snd b < snd a \<or> (snd b = snd a \<and> fst a < fst b)) ys"
    and "\<forall>y \<in> set ys. fst x < fst y"
  shows "sorted_wrt (\<lambda>a b. snd b < snd a \<or> (snd b = snd a \<and> fst a < fst b))
           (insort_key (\<lambda>p. - int (snd p)) x ys)"
  using assms by (induction ys) (auto simp: set_insort_key)

lemma sort_desc_pairs:
  fixes xs :: "(nat \<times> nat) list"
  assumes "sorted_wrt (\<lambda>a b. fst a < fst b) xs"
  shows "sorted_wrt (\<lambda>a b. snd b < snd a \<or> (snd b = snd a \<and> fst a < fst b))
           (sort_desc (\<lambda>p. int (snd p)) xs)"
  using assms
proof (induction xs)
  case Nil
  then show ?case by (simp add: sort_desc_def)
next
  case (Cons x xs)
  have "sorted_wrt (\<lambda>a b. snd b < snd a \<or> (snd b = snd a \<and> fst a < fst b))
          (insort_key (\<lambda>p. - int (snd p)) x (sort_key (\<lambda>p. - int (snd p)) xs))"
  proof (rule insort_desc_pairs)
    show "sorted_wrt (\<lambda>a b. snd b < snd a \<or> (snd b = snd a \<and> fst a < fst b))
            (sort_key (\<lambda>p. - int (snd p)) xs)"
      using Cons by (simp add: sort_desc_def)
    show "\<forall>y \<in> set (sort_key (\<lambda>p. - int (snd p)) xs). fst x < fst y"
      using Cons.prems by simp
  qed
  then show ?case by (simp add: sort_desc_def)
qed

lemma sorted_hour_counts:
  "sorted_wrt (\<lambda>a b. fst a < fst b) (hour_counts hours)"
  by (simp add: hour_counts_def sorted_wrt_map sorted_wrt_iff_nth_less)

lemma top_selection:
  fixes S :: "(nat \<times> nat) list"
  assumes srt: "sorted_wrt (\<lambda>a b. snd b < snd a \<or> (snd b = snd a \<and> fst a < fst b)) S"
    and pairs: "\<forall>p \<in> set S. snd p = c (fst p)"
    and sel: "sel = map fst (filter (\<lambda>p. 0 < snd p) (take 3 S))"
  shows "length sel \<le> 3"
    and "sorted_wrt (busier c) sel"
    and "\<forall>h \<in> set sel. 0 < c h \<and> h \<in> fst ` set S"
    and "\<forall>p \<in> set S. 0 < snd p \<and> fst p \<notin> set sel \<longrightarrow>
           length sel = 3 \<and> (\<forall>s \<in> set sel. busier c s (fst p))"
proof -
  let ?R = "\<lambda>a b. snd b < snd a \<or> (snd b = snd a \<and> fst a < fst b)"
  let ?T = "take 3 S"
  have "length (filter (\<lambda>p. 0 < snd p) ?T) \<le> length ?T" by (rule length_filter_le)
  then show "length sel \<le> 3" by (simp add: sel)
  have subT: "set ?T \<subseteq> set S" by (rule set_take_subset)
  have sT: "sorted_wrt ?R (filter (\<lambda>p. 0 < snd p) ?T)"
    using srt by (intro sorted_wrt_filter sorted_wrt_take)
  have "sorted_wrt (\<lambda>a b. busier c (fst a) (fst b)) (filter (\<lambda>p. 0 < snd p) ?T)"
  proof (rule sorted_wrt_mono_rel [OF _ sT])
    fix a b
    assume "a \<in> set (filter (\<lambda>p. 0 < snd p) ?T)" "b \<in> set (filter (\<lambda>p. 0 < snd p) ?T)"
      and "?R a b"
    then have "a \<in> set S" "b \<in> set S" and r: "?R a b" using subT by auto
    then have "snd a = c (fst a)" "snd b = c (fst b)" using pairs by simp_all
    with r show "busier c (fst a) (fst b)" by (simp add: busier_def)
  qed
  then show "sorted_wrt (busier c) sel" by (simp add: sel sorted_wrt_map)
  show "\<forall>h \<in> set sel. 0 < c h \<and> h \<in> fst ` set S"
  proof
    fix h
    assume "h \<in> set sel"
    then obtain a where a: "a \<in> set ?T" "0 < snd a" "h = fst a" by (auto simp: sel)
    then have "a \<in> set S" using subT by blast
    then have "snd a = c (fst a)" using pairs by simp
    with a \<open>a \<in> set S\<close> show "0 < c h \<and> h \<in> fst ` set S" by auto
  qed
  show "\<forall>p \<in> set S. 0 < snd p \<and> fst p \<notin> set sel \<longrightarrow>
           length sel = 3 \<and> (\<forall>s \<in> set sel. busier c s (fst p))"
  proof (intro ballI impI)
    fix p
    assume p: "p \<in> set S" and "0 < snd p \<and> fst p \<notin> set sel"
    then have pos: "0 < snd p" and out: "fst p \<notin> set sel" by simp_all
    have "p \<notin> set ?T"
    proof
      assume "p \<in> set ?T"
      with pos have "fst p \<in> set sel" by (auto simp: sel)
      with out show False by contradiction
    qed
    moreover have "set S = set ?T \<union> set (drop 3 S)"
      by (metis append_take_drop_id set_append)
    ultimately have pd: "p \<in> set (drop 3 S)" using p by blast
    then have len: "3 < length S" by (cases "3 < length S") auto
    have "\<forall>x \<in> set ?T. \<forall>y \<in> set (drop 3 S). ?R x y"
      using srt sorted_wrt_append [of ?R ?T "drop 3 S"] by simp
    then have before: "\<forall>a \<in> set ?T. ?R a p"
      using pd by blast
    then have "\<forall>a \<in> set ?T. 0 < snd a" using pos by auto
    then have all: "filter (\<lambda>p. 0 < snd p) ?T = ?T" by (simp add: filter_id_conv)
    have l3: "length sel = 3" using len by (simp add: sel all)
    have "busier c (fst a) (fst p)" if "a \<in> set ?T" for a
    proof -
      from that subT have "a \<in> set S" by blast
      then have "snd a = c (fst a)" "snd p = c (fst p)" using pairs p by simp_all
      moreover have "?R a p" using before that by blast
      ultimately show ?thesis by (simp add: busier_def)
    qed
    then have "\<forall>s \<in> set sel. busier c s (fst p)"
      by (auto simp: sel all)
    with l3 show "length sel = 3 \<and> (\<forall>s \<in> set sel. busier c s (fst p))" by simp
  qed
qed

lemma completion_hour_None:
  "(completion_hour lib t = None) = (\<not> parseable lib (completed_at t))"
  by (simp add: completion_hour_def parseable_def split: option.splits)

lemma completion_hour_lt_24: "completion_hour lib t = Some h \<Longrightarrow> h < 24"
  by (auto simp: completion_hour_def dt_hour_def split: option.splits if_splits)

lemma completion_hours_Nil:
  "(completion_hours lib ts = []) = (\<forall>t \<in> set ts. completion_hour lib t = None)"
  by (induction ts) (auto simp: completion_hours_def split: option.splits)

lemma count_completion_hours:
  "count_list (completion_hours lib ts) h = completions_in_hour lib ts h"
  by (induction ts) (auto simp: completion_hours_def completions_in_hour_def split: option.splits)

lemma completions_in_hour_pos:
  "0 < completions_in_hour lib ts h \<Longrightarrow> h < 24"
proof -
  assume "0 < completions_in_hour lib ts h"
  then have "filter (\<lambda>t. completion_hour lib t = Some h) ts \<noteq> []"
    by (simp add: completions_in_hour_def)
  then obtain t where "completion_hour lib t = Some h"
    by (auto simp: filter_empty_conv)
  then show "h < 24" by (rule completion_hour_lt_24)
qed

lemma format_hour_12h:
  "h < 24 \<Longrightarrow> format_hour h =
     str_nat (if h mod 12 = 0 then 12 else h mod 12) @ '' '' @ (if h < 12 then ''AM'' else ''PM'')"
proof -
  assume h: "h < 24"
  have "12 \<le> h \<Longrightarrow> h mod 12 = h - 12"
    using h by (simp add: mod_if)
  then show ?thesis
    by (auto simp: format_hour_def Let_def)
qed

lemma format_hour_0: "format_hour 0 = ''12 AM''"
  by (simp add: format_hour_def str_simps)

lemma format_hour_12: "format_hour 12 = ''12 PM''"
  by (simp add: format_hour_def str_simps)

lemma top_hours_spec:
  fixes hours :: "nat list"
  assumes sel: "sel = map fst (filter (\<lambda>p. 0 < snd p) (top_hours hours))"
  shows "formatted_hours hours = map format_hour sel"
    and "length sel \<le> 3"
    and "sorted_wrt (busier (count_list hours)) sel"
    and "\<forall>h \<in> set sel. h < 24 \<and> 0 < count_list hours h"
    and "\<forall>h < 24. 0 < count_list hours h \<and> h \<notin> set sel \<longrightarrow>
           length sel = 3 \<and> (\<forall>s \<in> set sel. busier (count_list hours) s h)"
proof -
  let ?S = "sort_desc (\<lambda>p. int (snd p)) (hour_counts hours)"
  let ?c = "count_list hours"
  have srt: "sorted_wrt (\<lambda>a b. snd b < snd a \<or> (snd b = snd a \<and> fst a < fst b)) ?S"
    by (rule sort_desc_pairs) (rule sorted_hour_counts)
  have setS: "set ?S = (\<lambda>h. (h, ?c h)) ` {0..<24}"
    by (simp add: sort_desc_def hour_counts_def)
  then have pairs: "\<forall>p \<in> set ?S. snd p = ?c (fst p)" by auto
  have sel': "sel = map fst (filter (\<lambda>p. 0 < snd p) (take 3 ?S))"
    by (simp add: sel top_hours_def)
  note ts = top_selection [OF srt pairs sel']
  show "formatted_hours hours = map format_hour sel"
    by (simp add: formatted_hours_def sel comp_def)
  show "length sel \<le> 3" by (rule ts(1))
  show "sorted_wrt (busier ?c) sel" by (rule ts(2))
  show "\<forall>h \<in> set sel. h < 24 \<and> 0 < ?c h"
    using ts(3) setS by auto
  show "\<forall>h < 24. 0 < ?c h \<and> h \<notin> set sel \<longrightarrow>
           length sel = 3 \<and> (\<forall>s \<in> set sel. busier ?c s h)"
  proof (intro allI impI)
    fix h :: nat
    assume "h < 24" and h: "0 < ?c h \<and> h \<notin> set sel"
    then have "(h, ?c h) \<in> set ?S" using setS by auto
    with ts(4) h show "length sel = 3 \<and> (\<forall>s \<in> set sel. busier ?c s h)"
      by fastforce
  qed
qed

text \<open>
  C5.  The analyzer returns nothing exactly when no task has a completion timestamp
  that parses.  Otherwise the productive hours are the formatted hours of a selection
  \<open>sel\<close>: at least one and at most 3 hours of the day with a non-zero number of
  completions, in the order of descending count with the lower hour first among equal
  counts, such that every hour with completions that was left out is preceded in this
  order by all three selected hours.  An hour is printed on the 12-hour clock with AM or
  PM; hour 0 is \<^verbatim>\<open>12 AM\<close> and hour 12 is \<^verbatim>\<open>12 PM\<close>.
\<close>

theorem productive_time_top_hours:
  "((analyze_productive_time lib completed logs = None)
      = (\<forall>t \<in> set completed. \<not> parseable lib (completed_at t)))
   \<and> (\<forall>r. analyze_productive_time lib completed logs = Some r \<longrightarrow>
        (\<exists>sel. productive_hours r = map format_hour sel
           \<and> sel \<noteq> [] \<and> length sel \<le> 3
           \<and> (\<forall>h \<in> set sel. h < 24 \<and> 0 < completions_in_hour lib completed h)
           \<and> sorted_wrt (busier (completions_in_hour lib completed)) sel
           \<and> (\<forall>h. 0 < completions_in_hour lib completed h \<and> h \<notin> set sel \<longrightarrow>
                 length sel = 3
                 \<and> (\<forall>s \<in> set sel. busier (completions_in_hour lib completed) s h))))
   \<and> format_hour 0 = ''12 AM'' \<and> format_hour 12 = ''12 PM''
   \<and> (\<forall>h < 24. format_hour h =
         str_nat (if h mod 12 = 0 then 12 else h mod 12) @ '' ''
           @ (if h < 12 then ''AM'' else ''PM''))"
proof -
  let ?hours = "completion_hours lib completed"
  let ?cnt = "completions_in_hour lib completed"
  have cnt: "count_list ?hours = ?cnt"
    by (rule ext) (rule count_completion_hours)
  have absent: "(analyze_productive_time lib completed logs = None)
      = (\<forall>t \<in> set completed. \<not> parseable lib (completed_at t))"
    by (auto simp: analyze_productive_time_def Let_def completion_hours_Nil
        completion_hour_None)
  have present: "\<exists>sel. productive_hours r = map format_hour sel
           \<and> sel \<noteq> [] \<and> length sel \<le> 3
           \<and> (\<forall>h \<in> set sel. h < 24 \<and> 0 < ?cnt h)
           \<and> sorted_wrt (busier ?cnt) sel
           \<and> (\<forall>h. 0 < ?cnt h \<and> h \<notin> set sel \<longrightarrow>
                 length sel = 3 \<and> (\<forall>s \<in> set sel. busier ?cnt s h))"
    if r: "analyze_productive_time lib completed logs = Some r" for r
  proof -
    define sel where "sel = map fst (filter (\<lambda>p. 0 < snd p) (top_hours ?hours))"
    note th = top_hours_spec [OF sel_def, unfolded cnt]
    from r have ne: "?hours \<noteq> []" and ph: "productive_hours r = formatted_hours ?hours"
      by (auto simp: analyze_productive_time_def Let_def split: if_splits)
    have dom: "\<forall>h. 0 < ?cnt h \<and> h \<notin> set sel \<longrightarrow>
                 length sel = 3 \<and> (\<forall>s \<in> set sel. busier ?cnt s h)"
      using th(5) completions_in_hour_pos [of lib completed] by blast
    from ne obtain h0 where "h0 \<in> set ?hours" by (cases ?hours) auto
    then have "count_list ?hours h0 \<noteq> 0" by (simp only: count_list_0_iff) simp
    then have "0 < count_list ?hours h0" by simp
    then have pos: "0 < ?cnt h0" by (simp add: cnt)
    have nonempty: "sel \<noteq> []"
    proof
      assume "sel = []"
      with dom pos have "length sel = 3" by auto
      with \<open>sel = []\<close> show False by simp
    qed
    show ?thesis
      apply (rule exI [of _ sel])
      using ph th(1) th(2) th(3) th(4) dom nonempty by simp
  qed
  from absent present format_hour_0 format_hour_12 format_hour_12h show ?thesis
    by blast
qed

theorem productive_time_top_hours_witness:
  "map_option productive_hours
     (analyze_productive_time sample_lib
        [sample_done ''a'' None None (Some ''2024-03-10T17:00:00''),
         sample_done ''b'' None None (Some ''2024-03-12T12:00:00''),
         sample_done ''c'' None None (Some ''2024-03-09T09:00:00''),
         sample_done ''d'' None None (Some ''2024-03-10T08:15:00''),
         sample_done ''e'' None None (Some ''not-a-date''),
         sample_done ''f'' None None (Some ''2024-03-10T17:00:00'')] [])
     = Some [''5 PM'', ''8 AM'', ''9 AM'']
   \<and> analyze_productive_time sample_lib
        [sample_done ''e'' None None (Some ''not-a-date''), sample_done ''g'' None None None] []
     = None"
proof -
  have top: "map_option productive_hours
     (analyze_productive_time sample_lib
        [sample_done ''a'' None None (Some ''2024-03-10T17:00:00''),
         sample_done ''b'' None None (Some ''2024-03-12T12:00:00''),
         sample_done ''c'' None None (Some ''2024-03-09T09:00:00''),
         sample_done ''d'' None None (Some ''2024-03-10T08:15:00''),
         sample_done ''e'' None None (Some ''not-a-date''),
         sample_done ''f'' None None (Some ''2024-03-10T17:00:00'')] [])
     = Some [''5 PM'', ''8 AM'', ''9 AM'']"
    by code_simp
  have "\<forall>t \<in> set [sample_done ''e'' None None (Some ''not-a-date''),
                    sample_done ''g'' None None None].
          \<not> parseable sample_lib (completed_at t)"
    by (simp add: parseable_def sample_simps)
  then have "analyze_productive_time sample_lib
        [sample_done ''e'' None None (Some ''not-a-date''), sample_done ''g'' None None None] []
     = None"
    using productive_time_top_hours [of sample_lib
        "[sample_done ''e'' None None (Some ''not-a-date''), sample_done ''g'' None None None]" "[]"]
    by blast
  with top show ?thesis by simp
qed

section \<open>The completion-rate analyzer\<close>

lemma fold_rate_step:
  "fold (rate_step lib) ts acc =
     (fst acc + length (filter (\<lambda>t. completed_on_time lib t = Some True) ts),
      snd acc + length (filter (\<lambda>t. completed_on_time lib t = Some False) ts))"
proof (induction ts arbitrary: acc)
  case Nil
  then show ?case by simp
next
  case (Cons t ts)
  have "rate_step lib t acc =
      (fst acc + (if completed_on_time lib t = Some True then 1 else 0),
       snd acc + (if completed_on_time lib t = Some False then 1 else 0))"
    by (simp add: rate_step_def completed_on_time_def split: option.splits sum.splits prod.splits)
  then show ?case by (simp add: Cons.IH)
qed

lemma sample_split:
  "length (filter (\<lambda>t. completed_on_time lib t = Some True) ts)
     + length (filter (\<lambda>t. completed_on_time lib t = Some False) ts)
   = length (filter (\<lambda>t. completed_on_time lib t \<noteq> None) ts)"
proof (induction ts)
  case Nil
  then show ?case by simp
next
  case (Cons a ts)
  then show ?case by (cases "completed_on_time lib a") auto
qed

lemma completed_on_time_parseable:
  "completed_on_time lib t \<noteq> None \<Longrightarrow>
     parseable lib (due_date t) \<and> parseable lib (completed_at t)"
  by (auto simp: completed_on_time_def both_dates_def parseable_def
      split: option.splits if_splits)

text \<open>
  C6.  The analyzer returns nothing exactly when both collections are empty.  Otherwise
  the completion rate is \<^verbatim>\<open>completed / (completed + pending) * 100\<close> rounded to one
  decimal: the quotient of the two counts, rounded to a float by \<open>fl\<close>, times 100,
  rounded to a float again, then \<^verbatim>\<open>round(x, 1)\<close>; the on-time percentage is the same
  expression of the number of on-time tasks and the size of the sample.
  The on-time percentage is computed over the sample of the completed tasks that are
  classified as on time or late; every task of the sample has a due date and a
  completion date that parse, so the percentage is the integer 0 when no completed task
  has both, and whenever the sample is empty.  With 6 completed tasks that have no due
  date and no pending task the rate is 100.0 and the on-time percentage 0 (the three
  float operations are exact on the integers 1 and 100).
\<close>

theorem completion_rate_values:
  "((analyze_completion_rate lib completed pending = None) = (completed = [] \<and> pending = []))
   \<and> (\<forall>r. analyze_completion_rate lib completed pending = Some r \<longrightarrow>
        completion_rate r
          = round1 lib (fl lib (fl lib (of_nat (length completed)
                                     / of_nat (length completed + length pending)) * 100))
        \<and> on_time_percentage r =
            (if filter (\<lambda>t. completed_on_time lib t \<noteq> None) completed = [] then PyInt 0
             else PyFloat (round1 lib (fl lib (fl lib
                    (of_nat (length (filter (\<lambda>t. completed_on_time lib t = Some True) completed))
                     / of_nat (length (filter (\<lambda>t. completed_on_time lib t \<noteq> None) completed)))
                    * 100))))
        \<and> (\<forall>t \<in> set (filter (\<lambda>t. completed_on_time lib t \<noteq> None) completed).
              parseable lib (due_date t) \<and> parseable lib (completed_at t))
        \<and> ((\<forall>t \<in> set completed.
               \<not> (parseable lib (due_date t) \<and> parseable lib (completed_at t))) \<longrightarrow>
             on_time_percentage r = PyInt 0)
        \<and> completed_count r = length completed \<and> pending_count r = length pending)
   \<and> (length completed = 6 \<and> pending = [] \<and> (\<forall>t \<in> set completed. due_date t = None)
        \<and> fl lib 1 = 1 \<and> fl lib 100 = 100 \<and> round1 lib 100 = 100 \<longrightarrow>
        (\<exists>r. analyze_completion_rate lib completed pending = Some r
           \<and> completion_rate r = 100 \<and> on_time_percentage r = PyInt 0))"
proof -
  let ?on = "filter (\<lambda>t. completed_on_time lib t = Some True) completed"
  let ?sample = "filter (\<lambda>t. completed_on_time lib t \<noteq> None) completed"
  have absent: "(analyze_completion_rate lib completed pending = None)
      = (completed = [] \<and> pending = [])"
    by (simp add: analyze_completion_rate_def Let_def)
  have counts: "fst (fold (rate_step lib) completed (0, 0))
       + snd (fold (rate_step lib) completed (0, 0)) = length ?sample"
    "fst (fold (rate_step lib) completed (0, 0)) = length ?on"
    by (simp_all add: fold_rate_step sample_split)
  have vals: "completion_rate r
          = round1 lib (percent lib (length completed) (length completed + length pending))
        \<and> on_time_percentage r =
            (if ?sample = [] then PyInt 0
             else PyFloat (round1 lib (percent lib (length ?on) (length ?sample))))
        \<and> completed_count r = length completed \<and> pending_count r = length pending"
    if "analyze_completion_rate lib completed pending = Some r" for r
    using that counts
    by (auto simp: analyze_completion_rate_def Let_def split: if_splits)
  have sub: "\<forall>t \<in> set ?sample. parseable lib (due_date t) \<and> parseable lib (completed_at t)"
    using completed_on_time_parseable by auto
  have empty: "?sample = []"
    if "\<forall>t \<in> set completed. \<not> (parseable lib (due_date t) \<and> parseable lib (completed_at t))"
  proof -
    have "completed_on_time lib t = None" if "t \<in> set completed" for t
    proof (rule ccontr)
      assume "completed_on_time lib t \<noteq> None"
      then have "parseable lib (due_date t) \<and> parseable lib (completed_at t)"
        by (rule completed_on_time_parseable)
      with that \<open>\<forall>t \<in> set completed. \<not> (parseable lib (due_date t) \<and> parseable lib (completed_at t))\<close>
      show False by blast
    qed
    then show ?thesis by (simp add: filter_empty_conv)
  qed
  have example: "\<exists>r. analyze_completion_rate lib completed pending = Some r
           \<and> completion_rate r = 100 \<and> on_time_percentage r = PyInt 0"
    if ex: "length completed = 6 \<and> pending = [] \<and> (\<forall>t \<in> set completed. due_date t = None)
        \<and> fl lib 1 = 1 \<and> fl lib 100 = 100 \<and> round1 lib 100 = 100"
  proof -
    from ex have ne: "analyze_completion_rate lib completed pending \<noteq> None"
      using absent by auto
    then obtain r where r: "analyze_completion_rate lib completed pending = Some r" by auto
    have "\<forall>t \<in> set completed. \<not> (parseable lib (due_date t) \<and> parseable lib (completed_at t))"
      using ex by (simp add: parseable_def)
    then have e: "?sample = []" by (rule empty)
    have "percent lib 6 6 = 100" using ex by (simp add: percent_def)
    with vals [OF r] ex e r show ?thesis by simp
  qed
  have mid: "\<forall>r. analyze_completion_rate lib completed pending = Some r \<longrightarrow>
        completion_rate r
          = round1 lib (percent lib (length completed) (length completed + length pending))
        \<and> on_time_percentage r =
            (if ?sample = [] then PyInt 0
             else PyFloat (round1 lib (percent lib (length ?on) (length ?sample))))
        \<and> (\<forall>t \<in> set ?sample. parseable lib (due_date t) \<and> parseable lib (completed_at t))
        \<and> ((\<forall>t \<in> set completed.
               \<not> (parseable lib (due_date t) \<and> parseable lib (completed_at t))) \<longrightarrow>
             on_time_percentage r = PyInt 0)
        \<and> completed_count r = length completed \<and> pending_count r = length pending"
  proof (intro allI impI conjI)
    fix r
    assume r: "analyze_completion_rate lib completed pending = Some r"
    show "completion_rate r
          = round1 lib (percent lib (length completed) (length completed + length pending))"
      using vals [OF r] by simp
    show otp: "on_time_percentage r =
            (if ?sample = [] then PyInt 0
             else PyFloat (round1 lib (percent lib (length ?on) (length ?sample))))"
      using vals [OF r] by simp
    show "\<forall>t \<in> set ?sample. parseable lib (due_date t) \<and> parseable lib (completed_at t)"
      by (rule sub)
    show "on_time_percentage r = PyInt 0"
      if "\<forall>t \<in> set completed.
               \<not> (parseable lib (due_date t) \<and> parseable lib (completed_at t))"
      using otp empty [OF that] by simp
    show "completed_count r = length completed" using vals [OF r] by simp
    show "pending_count r = length pending" using vals [OF r] by simp
  qed
  have ex': "length completed = 6 \<and> pending = [] \<and> (\<forall>t \<in> set completed. due_date t = None)
        \<and> fl lib 1 = 1 \<and> fl lib 100 = 100 \<and> round1 lib 100 = 100 \<longrightarrow>
        (\<exists>r. analyze_completion_rate lib completed pending = Some r
           \<and> completion_rate r = 100 \<and> on_time_percentage r = PyInt 0)"
    using example by (rule impI)
  show ?thesis
    by (rule conjI [OF absent conjI [OF mid ex'], unfolded percent_def])
qed

theorem completion_rate_values_witness:
  "map_option (\<lambda>r. (completion_rate r, on_time_percentage r))
     (analyze_completion_rate sample_lib
        [sample_done ''a'' None (Some ''2024-03-10T17:00:00'') (Some ''2024-03-10T08:15:00''),
         sample_done ''b'' None (Some ''2024-03-09T09:00:00'') (Some ''2024-03-12T12:00:00''),
         sample_done ''c'' None (Some ''not-a-date'') (Some ''2024-03-12T12:00:00'')]
        [sample_task ''p'' None None])
     = Some (75, PyFloat 50)
   \<and> map_option (\<lambda>r. (completion_rate r, on_time_percentage r))
       (analyze_completion_rate sample_lib
          [sample_done ''a'' None None (Some ''2024-03-10T08:15:00''),
           sample_done ''b'' None None (Some ''2024-03-10T08:15:00''),
           sample_done ''c'' None None (Some ''2024-03-10T08:15:00''),
           sample_done ''d'' None None (Some ''2024-03-10T08:15:00''),
           sample_done ''e'' None None (Some ''2024-03-10T08:15:00''),
           sample_done ''f'' None None (Some ''2024-03-10T08:15:00'')] [])
     = Some (100, PyInt 0)
   \<and> analyze_completion_rate sample_lib [] [] = None"
proof -
  have first: "map_option (\<lambda>r. (completion_rate r, on_time_percentage r))
     (analyze_completion_rate sample_lib
        [sample_done ''a'' None (Some ''2024-03-10T17:00:00'') (Some ''2024-03-10T08:15:00''),
         sample_done ''b'' None (Some ''2024-03-09T09:00:00'') (Some ''2024-03-12T12:00:00''),
         sample_done ''c'' None (Some ''not-a-date'') (Some ''2024-03-12T12:00:00'')]
        [sample_task ''p'' None None])
     = Some (75, PyFloat 50)"
    by (simp add: analyze_completion_rate_def rate_step_def both_dates_def dt_le_def dt_sub_def
        percent_def Let_def sample_simps)
  have six: "\<exists>r. analyze_completion_rate sample_lib
          [sample_done ''a'' None None (Some ''2024-03-10T08:15:00''),
           sample_done ''b'' None None (Some ''2024-03-10T08:15:00''),
           sample_done ''c'' None None (Some ''2024-03-10T08:15:00''),
           sample_done ''d'' None None (Some ''2024-03-10T08:15:00''),
           sample_done ''e'' None None (Some ''2024-03-10T08:15:00''),
           sample_done ''f'' None None (Some ''2024-03-10T08:15:00'')] [] = Some r
        \<and> completion_rate r = 100 \<and> on_time_percentage r = PyInt 0"
    using completion_rate_values [of sample_lib
          "[sample_done ''a'' None None (Some ''2024-03-10T08:15:00''),
           sample_done ''b'' None None (Some ''2024-03-10T08:15:00''),
           sample_done ''c'' None None (Some ''2024-03-10T08:15:00''),
           sample_done ''d'' None None (Some ''2024-03-10T08:15:00''),
           sample_done ''e'' None None (Some ''2024-03-10T08:15:00''),
           sample_done ''f'' None None (Some ''2024-03-10T08:15:00'')]" "[]"]
    by (simp add: sample_done_def sample_lib_def)
  have none: "analyze_completion_rate sample_lib [] [] = None"
    using completion_rate_values [of sample_lib "[]" "[]"] by simp
  from first six none show ?thesis by auto
qed

section \<open>The insight generator\<close>

lemma analyze_category_performance_Inr:
  "\<exists>v. analyze_category_performance lib completed = Inr v
       \<and> (completed \<noteq> [] \<longrightarrow> v \<noteq> None)"
proof (cases "completed = []")
  case True
  then show ?thesis by (simp add: analyze_category_performance_def)
next
  case False
  from analyze_category_performance_returns [OF False, of lib] show ?thesis by auto
qed

text \<open>
  C8.  The generator never raises while it builds the rows.  With 5 or fewer completed
  tasks it produces no row.  With more than 5 it produces, for each of the productive-time,
  completion-rate and category-performance analyzers, exactly one row tagged with the
  analyzer's type and holding its result when the analyzer returns one, and no row of
  that type when it returns nothing; the same holds for the recommender when there is
  more than 1 pending task, and there is no recommendation row otherwise.  Every row
  carries the user and one of the four types.
\<close>

theorem generate_insights_gating:
  "\<exists>L. generate_task_insights lib clock uid completed pending logs = Inr L
     \<and> (\<not> 5 < length completed \<longrightarrow> L = [])
     \<and> (\<forall>x \<in> set L. user_id x = uid
            \<and> insight_type x \<in> {''productive_time'', ''completion_rate'',
                                 ''category_performance'', ''task_recommendations''})
     \<and> (5 < length completed \<longrightarrow>
          filter (\<lambda>x. insight_type x = ''productive_time'') L
            = (case analyze_productive_time lib completed logs of
                 None \<Rightarrow> []
               | Some p \<Rightarrow> [\<lparr>user_id = uid, insight_type = ''productive_time'',
                              insight_data = ProductiveTime p\<rparr>])
          \<and> filter (\<lambda>x. insight_type x = ''completion_rate'') L
            = (case analyze_completion_rate lib completed pending of
                 None \<Rightarrow> []
               | Some c \<Rightarrow> [\<lparr>user_id = uid, insight_type = ''completion_rate'',
                              insight_data = CompletionRate c\<rparr>])
          \<and> filter (\<lambda>x. insight_type x = ''category_performance'') L
            = (case analyze_category_performance lib completed of
                 Inr (Some c) \<Rightarrow> [\<lparr>user_id = uid, insight_type = ''category_performance'',
                                    insight_data = CategoryPerformance c\<rparr>]
               | _ \<Rightarrow> [])
          \<and> filter (\<lambda>x. insight_type x = ''task_recommendations'') L
            = (if 1 < length pending
               then (case recommend_task_order lib clock pending completed of
                       None \<Rightarrow> []
                     | Some t \<Rightarrow> [\<lparr>user_id = uid, insight_type = ''task_recommendations'',
                                    insight_data = TaskRecommendations t\<rparr>])
               else []))"
proof (cases "5 < length completed")
  case False
  then show ?thesis by (simp add: generate_task_insights_def)
next
  case True
  from analyze_category_performance_Inr [of lib completed]
  obtain v where v: "analyze_category_performance lib completed = Inr v" by blast
  let ?L = "append_insight uid ''productive_time''
              (map_option ProductiveTime (analyze_productive_time lib completed logs))
            @ append_insight uid ''completion_rate''
                (map_option CompletionRate (analyze_completion_rate lib completed pending))
            @ append_insight uid ''category_performance'' (map_option CategoryPerformance v)
            @ (if 1 < length pending
               then append_insight uid ''task_recommendations''
                      (map_option TaskRecommendations
                         (recommend_task_order lib clock pending completed))
               else [])"
  have L: "generate_task_insights lib clock uid completed pending logs = Inr ?L"
    using True v by (simp add: generate_task_insights_def)
  have f1: "filter (\<lambda>x. insight_type x = ty) (append_insight uid ty' res)
              = (if ty = ty' then append_insight uid ty' res else [])" for ty ty' res
    by (simp add: append_insight_def split: option.splits)
  have mem: "\<forall>x \<in> set (append_insight uid ty res). user_id x = uid \<and> insight_type x = ty"
    for ty res
    by (auto simp: append_insight_def split: option.splits)
  have all: "\<forall>x \<in> set ?L. user_id x = uid
            \<and> insight_type x \<in> {''productive_time'', ''completion_rate'',
                                 ''category_performance'', ''task_recommendations''}"
    using mem by (auto split: if_splits)
  have p: "filter (\<lambda>x. insight_type x = ''productive_time'') ?L
            = (case analyze_productive_time lib completed logs of
                 None \<Rightarrow> []
               | Some p \<Rightarrow> [\<lparr>user_id = uid, insight_type = ''productive_time'',
                              insight_data = ProductiveTime p\<rparr>])"
    by (simp add: f1) (simp add: append_insight_def split: option.splits)
  have c: "filter (\<lambda>x. insight_type x = ''completion_rate'') ?L
            = (case analyze_completion_rate lib completed pending of
                 None \<Rightarrow> []
               | Some c \<Rightarrow> [\<lparr>user_id = uid, insight_type = ''completion_rate'',
                              insight_data = CompletionRate c\<rparr>])"
    by (simp add: f1) (simp add: append_insight_def split: option.splits)
  have g: "filter (\<lambda>x. insight_type x = ''category_performance'') ?L
            = (case analyze_category_performance lib completed of
                 Inr (Some c) \<Rightarrow> [\<lparr>user_id = uid, insight_type = ''category_performance'',
                                    insight_data = CategoryPerformance c\<rparr>]
               | _ \<Rightarrow> [])"
    by (simp add: f1 v) (simp add: append_insight_def split: option.splits)
  have t: "filter (\<lambda>x. insight_type x = ''task_recommendations'') ?L
            = (if 1 < length pending
               then (case recommend_task_order lib clock pending completed of
                       None \<Rightarrow> []
                     | Some t \<Rightarrow> [\<lparr>user_id = uid, insight_type = ''task_recommendations'',
                                    insight_data = TaskRecommendations t\<rparr>])
               else [])"
    by (simp add: f1) (simp add: append_insight_def split: option.splits)
  show ?thesis
    apply (rule exI [of _ ?L])
    using L True all p c g t by (simp only: simp_thms)
qed

theorem generate_insights_gating_witness:
  "map_sum id (map insight_type)
     (generate_task_insights sample_lib (\<lambda>i. sample_now) ''u1''
        [sample_done ''a'' None None (Some ''2024-03-10T08:15:00''),
         sample_done ''b'' None None (Some ''2024-03-10T08:15:00''),
         sample_done ''c'' None None (Some ''2024-03-10T08:15:00''),
         sample_done ''d'' None None (Some ''2024-03-10T08:15:00''),
         sample_done ''e'' None None (Some ''2024-03-10T08:15:00''),
         sample_done ''f'' None None (Some ''2024-03-10T08:15:00'')]
        [sample_task ''p'' None None, sample_task ''q'' None None] [])
     = Inr [''productive_time'', ''completion_rate'', ''category_performance'',
            ''task_recommendations'']
   \<and> map_sum id (map insight_type)
     (generate_task_insights sample_lib (\<lambda>i. sample_now) ''u1''
        [sample_done ''a'' None None (Some ''not-a-date''),
         sample_done ''b'' None None None,
         sample_done ''c'' None None None,
         sample_done ''d'' None None None,
         sample_done ''e'' None None None,
         sample_done ''f'' None None None]
        [sample_task ''p'' None None] [])
     = Inr [''completion_rate'', ''category_performance'']
   \<and> generate_task_insights sample_lib (\<lambda>i. sample_now) ''u1''
        [sample_done ''a'' None None (Some ''2024-03-10T08:15:00''),
         sample_done ''b'' None None (Some ''2024-03-10T08:15:00''),
         sample_done ''c'' None None (Some ''2024-03-10T08:15:00''),
         sample_done ''d'' None None (Some ''2024-03-10T08:15:00''),
         sample_done ''e'' None None (Some ''2024-03-10T08:15:00'')]
        [sample_task ''p'' None None, sample_task ''q'' None None] []
     = Inr []"
proof -
  have full: "map_sum id (map insight_type)
     (generate_task_insights sample_lib (\<lambda>i. sample_now) ''u1''
        [sample_done ''a'' None None (Some ''2024-03-10T08:15:00''),
         sample_done ''b'' None None (Some ''2024-03-10T08:15:00''),
         sample_done ''c'' None None (Some ''2024-03-10T08:15:00''),
         sample_done ''d'' None None (Some ''2024-03-10T08:15:00''),
         sample_done ''e'' None None (Some ''2024-03-10T08:15:00''),
         sample_done ''f'' None None (Some ''2024-03-10T08:15:00'')]
        [sample_task ''p'' None None, sample_task ''q'' None None] [])
     = Inr [''productive_time'', ''completion_rate'', ''category_performance'',
            ''task_recommendations'']"
    by code_simp
  have part: "map_sum id (map insight_type)
     (generate_task_insights sample_lib (\<lambda>i. sample_now) ''u1''
        [sample_done ''a'' None None (Some ''not-a-date''),
         sample_done ''b'' None None None,
         sample_done ''c'' None None None,
         sample_done ''d'' None None None,
         sample_done ''e'' None None None,
         sample_done ''f'' None None None]
        [sample_task ''p'' None None] [])
     = Inr [''completion_rate'', ''category_performance'']"
    by code_simp
  have few: "generate_task_insights sample_lib (\<lambda>i. sample_now) ''u1''
        [sample_done ''a'' None None (Some ''2024-03-10T08:15:00''),
         sample_done ''b'' None None (Some ''2024-03-10T08:15:00''),
         sample_done ''c'' None None (Some ''2024-03-10T08:15:00''),
         sample_done ''d'' None None (Some ''2024-03-10T08:15:00''),
         sample_done ''e'' None None (Some ''2024-03-10T08:15:00'')]
        [sample_task ''p'' None None, sample_task ''q'' None None] []
     = Inr []"
    using generate_insights_gating [of sample_lib "\<lambda>i. sample_now" "''u1''"
        "[sample_done ''a'' None None (Some ''2024-03-10T08:15:00''),
         sample_done ''b'' None None (Some ''2024-03-10T08:15:00''),
         sample_done ''c'' None None (Some ''2024-03-10T08:15:00''),
         sample_done ''d'' None None (Some ''2024-03-10T08:15:00''),
         sample_done ''e'' None None (Some ''2024-03-10T08:15:00'')]"
        "[sample_task ''p'' None None, sample_task ''q'' None None]" "[]"]
    by auto
  from full part few show ?thesis by simp
qed

end
